theory Spec2Isabelle
  imports Main "HOL-Library.Sublist" "HOL-Library.Signed_Division"
begin

section \<open>Strings\<close>

text \<open>
  Messages are modelled as \<open>string\<close>, one \<open>char\<close> per UTF-16 code unit of the
  JavaScript string, restricted to ASCII: \<open>toLowerCase\<close> maps the letters A..Z and leaves
  every other character alone, which is what \<^verbatim>\<open>String.prototype.toLowerCase\<close> does on ASCII.
\<close>

definition toLowerChar :: "char \<Rightarrow> char" where
  "toLowerChar c =
     (case map_of (zip ''ABCDEFGHIJKLMNOPQRSTUVWXYZ'' ''abcdefghijklmnopqrstuvwxyz'') c of
        None \<Rightarrow> c
      | Some l \<Rightarrow> l)"

definition toLowerCase :: "string \<Rightarrow> string" where
  "toLowerCase s = map toLowerChar s"

text \<open>\<^verbatim>\<open>s.includes(p)\<close>: \<open>p\<close> occurs in \<open>s\<close> as a contiguous run of characters.\<close>

fun str_includes :: "string \<Rightarrow> string \<Rightarrow> bool" where
  "str_includes [] p = (p = [])"
| "str_includes (c # cs) p = (prefix p (c # cs) \<or> str_includes cs p)"

section \<open>Capability cache (src/src/lib/capability.ts)\<close>

text \<open>
  The types of the repository's type module. A \<^verbatim>\<open>number\<close> that holds an integer and a
  \<^verbatim>\<open>bigint\<close> are \<open>int\<close>; the counters of \<^verbatim>\<open>MiningStats\<close>, which start at 0 and are only
  incremented, are \<open>nat\<close>. The field \<^verbatim>\<open>bundle\<close> of \<^verbatim>\<open>CachedCapability\<close> is
  \<open>cached_bundle\<close> here.
\<close>

record Capability =
  wallet :: string
  allowedModes :: int
  nonce :: int
  issuedAt :: int
  expiresAt :: int
  budget :: int

record CapabilityBundle =
  capability :: Capability
  signature :: string

record CachedCapability =
  cached_bundle :: CapabilityBundle
  remainingBudget :: int
  fetchedAt :: int

record MiningStats =
  blocksDestroyed :: nat
  blocksAlreadyDestroyed :: nat
  errors :: nat
  startTime :: int
  capabilityRefreshes :: nat

text \<open>
  Calls to the external collaborators (capability endpoint, chain client, state file) and
  the invocation points of the optional callbacks of \<^verbatim>\<open>MinerCallbacks\<close>, recorded in the
  order in which the code reaches them. Up to the section on callbacks that may throw, a
  callback is a notification point that returns normally.
\<close>

datatype event =
    FetchCapability
  | SimulateContract
  | WriteContract
  | WaitForTransactionReceipt
  | GetLicenseStatus
  | GetBalance
  | GetUnprocessedCubeBalance
  | GetCubeBalance
  | OnBlockDestroyed int int "string option"
  | OnBlockAlreadyDestroyed int int
  | OnError string
  | OnCapabilityRefresh int
  | OnStats MiningStats
  | OnBatteryDepleted
  | SaveRuntimeState MiningStats

text \<open>
  The process-wide state outside the miner context: the module variable
  \<^verbatim>\<open>capabilityCache\<close> and the trace of events so far (latest last).
\<close>

record world =
  capabilityCache :: "CachedCapability option"
  trace :: "event list"

text \<open>
  The two fields of \<^verbatim>\<open>LicenseStatus\<close> that the miner reads (\<^verbatim>\<open>currentBattery\<close> and
  \<^verbatim>\<open>maxBattery\<close>; the prefix keeps them apart from the fields of the miner context).
\<close>

record LicenseStatus =
  ls_currentBattery :: int
  ls_maxBattery :: int

text \<open>
  What one mining iteration reads from outside: the random draws, the clock at each
  \<^verbatim>\<open>Date.now()\<close> (in \<^verbatim>\<open>needsCapabilityRefresh\<close>, in \<^verbatim>\<open>isCacheValid\<close> under
  \<^verbatim>\<open>getCapability\<close>, for \<^verbatim>\<open>fetchedAt\<close> and for \<^verbatim>\<open>lastBatteryRefresh\<close>), and the outcome
  each awaited call has if the iteration reaches it: \<^verbatim>\<open>fetchCapability\<close>,
  \<^verbatim>\<open>simulateContract\<close> (\<open>Some msg\<close>: it throws), \<^verbatim>\<open>writeContract\<close> (the hash),
  \<^verbatim>\<open>waitForTransactionReceipt\<close> (\<open>Inr True\<close>: status \<^verbatim>\<open>"success"\<close>),
  \<^verbatim>\<open>getLicenseStatus\<close>, \<^verbatim>\<open>getBalance\<close>, and the two balance reads that catch their own
  errors. \<open>Inl msg\<close> is a call that throws an error whose message is \<open>msg\<close>.
\<close>

record env =
  random_container :: int
  random_block :: int
  now_needsRefresh :: int
  now_isCacheValid :: int
  fetch_outcome :: "string + CapabilityBundle"
  now_fetchedAt :: int
  simulate_outcome :: "string option"
  write_outcome :: "string + string"
  receipt_outcome :: "string + bool"
  license_outcome :: "string + LicenseStatus"
  now_batteryRefresh :: int
  balance_outcome :: "string + int"
  unprocessed_outcome :: int
  cube_outcome :: int

text \<open>\<^verbatim>\<open>isCacheValid(cost)\<close>; \<open>dateNow\<close> is the reading of \<^verbatim>\<open>Date.now()\<close> in milliseconds.\<close>

definition isCacheValid :: "int \<Rightarrow> int \<Rightarrow> world \<Rightarrow> bool" where
  "isCacheValid dateNow cost w =
     (case capabilityCache w of
        None \<Rightarrow> False
      | Some c \<Rightarrow>
          (let now = dateNow div 1000;
               expires = expiresAt (capability (cached_bundle c))
           in if now \<ge> expires - 30 then False
              else if remainingBudget c < cost then False
              else True))"

text \<open>
  \<^verbatim>\<open>getCapability(networkConfig, wallet, droneId, cost)\<close>. The result is \<open>Inl msg\<close> when
  \<^verbatim>\<open>fetchCapability\<close> throws: the cache is then left as it was. The \<open>None\<close> branch under
  a valid cache is the failure of the non-null assertion \<^verbatim>\<open>capabilityCache!\<close>; \<open>isCacheValid\<close>
  excludes it.
\<close>

definition getCapability :: "env \<Rightarrow> int \<Rightarrow> world \<Rightarrow> (string + CapabilityBundle) \<times> world" where
  "getCapability e cost w =
     (if isCacheValid (now_isCacheValid e) cost w then
        (case capabilityCache w of
           Some c \<Rightarrow>
             (Inr (cached_bundle c),
              w\<lparr>capabilityCache := Some (c\<lparr>remainingBudget := remainingBudget c - cost\<rparr>)\<rparr>)
         | None \<Rightarrow> (Inl ''TypeError'', w))
      else
        (let w1 = w\<lparr>trace := trace w @ [FetchCapability]\<rparr> in
         case fetch_outcome e of
           Inl msg \<Rightarrow> (Inl msg, w1)
         | Inr b \<Rightarrow>
             (Inr b,
              w1\<lparr>capabilityCache :=
                    Some \<lparr>cached_bundle = b,
                          remainingBudget = budget (capability b) - cost,
                          fetchedAt = now_fetchedAt e\<rparr>\<rparr>)))"

definition getRemainingBudget :: "world \<Rightarrow> int" where
  "getRemainingBudget w =
     (case capabilityCache w of None \<Rightarrow> 0 | Some c \<Rightarrow> remainingBudget c)"

definition clearCapabilityCache :: "world \<Rightarrow> world" where
  "clearCapabilityCache w = w\<lparr>capabilityCache := None\<rparr>"

definition needsCapabilityRefresh :: "int \<Rightarrow> int \<Rightarrow> world \<Rightarrow> bool" where
  "needsCapabilityRefresh dateNow cost w = (\<not> isCacheValid dateNow cost w)"

section \<open>Transaction executor (src/src/lib/contract.ts)\<close>

record DestroyResult =
  success :: bool
  txHash :: "string option"
  error :: "string option"
  alreadyDestroyed :: "bool option"

text \<open>
  The inner \<^verbatim>\<open>catch (simError)\<close> of \<^verbatim>\<open>destroyBlock\<close>: the result returned when
  \<^verbatim>\<open>simulateContract\<close> throws an error with message \<open>simMsg\<close>.
\<close>

definition destroyBlock_simCatch :: "string \<Rightarrow> DestroyResult" where
  "destroyBlock_simCatch simMsg =
     (let lowerSim = toLowerCase simMsg in
      if str_includes lowerSim ''already destroyed'' then
        \<lparr>success = False, txHash = None, error = Some ''Already destroyed'',
         alreadyDestroyed = Some True\<rparr>
      else if str_includes lowerSim ''capability expired'' then
        \<lparr>success = False, txHash = None, error = Some ''Capability expired'',
         alreadyDestroyed = None\<rparr>
      else if str_includes lowerSim ''capability exhausted'' then
        \<lparr>success = False, txHash = None, error = Some ''Capability exhausted (on-chain)'',
         alreadyDestroyed = None\<rparr>
      else if str_includes lowerSim ''budget too low'' then
        \<lparr>success = False, txHash = None,
         error = Some ''Capability budget too low (cap.budget < cost)'',
         alreadyDestroyed = None\<rparr>
      else if str_includes lowerSim ''not authorized'' then
        \<lparr>success = False, txHash = None, error = Some ''Not authorized for license'',
         alreadyDestroyed = None\<rparr>
      else if str_includes lowerSim ''invalid capability signature'' then
        \<lparr>success = False, txHash = None, error = Some ''Invalid capability signature'',
         alreadyDestroyed = None\<rparr>
      else if str_includes lowerSim ''battery depleted'' then
        \<lparr>success = False, txHash = None, error = Some ''Battery depleted - shift ended'',
         alreadyDestroyed = None\<rparr>
      else
        \<lparr>success = False, txHash = None, error = Some (''Sim: '' @ take 150 simMsg),
         alreadyDestroyed = None\<rparr>)"

text \<open>
  The regular expression \<^verbatim>\<open>/reverted with reason[:\s]+"?([^"]+)"?/i\<close> on ASCII text.
  \<open>is_sep\<close> is the class \<^verbatim>\<open>[:\s]\<close>. \<open>revertReasonAt s\<close> is group 1 of the match that
  starts at the first character of \<open>s\<close>, following the backtracking order of the
  matcher: the separators are taken greedily, then the optional quote, then the longest
  run of characters other than the quote; when that run is empty the matcher gives one
  separator back, which then starts the group. \<open>revertMatch\<close> is
  \<^verbatim>\<open>errorMessage.match(...)\<close>: the leftmost position with a match wins.
\<close>

definition is_sep :: "char \<Rightarrow> bool" where
  "is_sep c = (c \<in> set [CHR '':'', CHR '' '', CHR 0x09, CHR 0x0A, CHR 0x0B, CHR 0x0C, CHR 0x0D])"

definition notQuote :: "char \<Rightarrow> bool" where
  "notQuote c = (c \<noteq> CHR 0x22)"

definition revertReasonAt :: "string \<Rightarrow> string option" where
  "revertReasonAt s =
     (if toLowerCase (take 20 s) = ''reverted with reason'' then
        (let r = drop 20 s;
             k = length (takeWhile is_sep r);
             t = drop k r;
             g = (case t of
                    [] \<Rightarrow> []
                  | c # t' \<Rightarrow> if c = CHR 0x22 then takeWhile notQuote t' else takeWhile notQuote t)
         in if k = 0 then None
            else if g \<noteq> [] then Some g
            else if 2 \<le> k then Some (takeWhile notQuote (drop (k - 1) r))
            else None)
      else None)"

fun revertMatch :: "string \<Rightarrow> string option" where
  "revertMatch [] = None"
| "revertMatch (c # cs) =
     (case revertReasonAt (c # cs) of
        Some g \<Rightarrow> Some g
      | None \<Rightarrow> revertMatch cs)"

text \<open>
  The outer \<^verbatim>\<open>catch (error)\<close> of \<^verbatim>\<open>destroyBlock\<close>: the result returned when
  \<^verbatim>\<open>writeContract\<close> or \<^verbatim>\<open>waitForTransactionReceipt\<close> throws an error with message
  \<open>errorMessage\<close>.
\<close>

definition destroyBlock_catch :: "string \<Rightarrow> DestroyResult" where
  "destroyBlock_catch errorMessage =
     (let lowerError = toLowerCase errorMessage in
      if str_includes lowerError ''already destroyed'' \<or> str_includes lowerError ''tile already'' then
        \<lparr>success = False, txHash = None, error = Some ''Already destroyed'',
         alreadyDestroyed = Some True\<rparr>
      else if str_includes lowerError ''capability expired'' then
        \<lparr>success = False, txHash = None, error = Some ''Capability expired'',
         alreadyDestroyed = None\<rparr>
      else if str_includes lowerError ''capability exhausted'' \<or> str_includes lowerError ''budget'' then
        \<lparr>success = False, txHash = None, error = Some ''Capability budget exhausted'',
         alreadyDestroyed = None\<rparr>
      else if str_includes lowerError ''not authorized'' then
        \<lparr>success = False, txHash = None, error = Some ''Not authorized for drone'',
         alreadyDestroyed = None\<rparr>
      else if str_includes lowerError ''invalid container'' then
        \<lparr>success = False, txHash = None, error = Some ''Invalid container ID'',
         alreadyDestroyed = None\<rparr>
      else if str_includes lowerError ''invalid tile'' then
        \<lparr>success = False, txHash = None, error = Some ''Invalid tile ID'',
         alreadyDestroyed = None\<rparr>
      else if str_includes lowerError ''jackpot fee'' then
        \<lparr>success = False, txHash = None, error = Some ''Jackpot fee too low'',
         alreadyDestroyed = None\<rparr>
      else
        (case revertMatch errorMessage of
           Some reason \<Rightarrow>
             if str_includes (toLowerCase reason) ''already'' then
               \<lparr>success = False, txHash = None, error = Some reason,
                alreadyDestroyed = Some True\<rparr>
             else
               \<lparr>success = False, txHash = None, error = Some reason, alreadyDestroyed = None\<rparr>
         | None \<Rightarrow>
             \<lparr>success = False, txHash = None, error = Some errorMessage,
              alreadyDestroyed = None\<rparr>))"

text \<open>
  \<^verbatim>\<open>destroyBlock\<close>: simulate; on a clean simulation submit and wait for the receipt
  (\<open>Inr True\<close>: the receipt's status is \<^verbatim>\<open>"success"\<close>). Every call made is appended to
  the trace.
\<close>

definition destroyBlock :: "env \<Rightarrow> world \<Rightarrow> DestroyResult \<times> world" where
  "destroyBlock e w =
     (let w1 = w\<lparr>trace := trace w @ [SimulateContract]\<rparr> in
      case simulate_outcome e of
        Some simMsg \<Rightarrow> (destroyBlock_simCatch simMsg, w1)
      | None \<Rightarrow>
          (let w2 = w1\<lparr>trace := trace w1 @ [WriteContract]\<rparr> in
           case write_outcome e of
             Inl msg \<Rightarrow> (destroyBlock_catch msg, w2)
           | Inr hash \<Rightarrow>
               (let w3 = w2\<lparr>trace := trace w2 @ [WaitForTransactionReceipt]\<rparr> in
                case receipt_outcome e of
                  Inl msg \<Rightarrow> (destroyBlock_catch msg, w3)
                | Inr ok \<Rightarrow>
                    if ok then
                      (\<lparr>success = True, txHash = Some hash, error = None,
                        alreadyDestroyed = None\<rparr>, w3)
                    else
                      (\<lparr>success = False, txHash = Some hash,
                        error = Some ''Transaction reverted on-chain'',
                        alreadyDestroyed = None\<rparr>, w3))))"

section \<open>Mining loop (the miner module, second part of src/src/lib/capability.ts)\<close>

text \<open>The two game constants are those of the type module.\<close>

definition CONTAINERS_PER_LAYER :: int where
  "CONTAINERS_PER_LAYER = 1572864"

definition TILES_PER_CONTAINER :: int where
  "TILES_PER_CONTAINER = 1024"

definition GRID_SIZE :: nat where
  "GRID_SIZE = 10"

record Location =
  face :: int
  sector :: int
  region :: int
  container :: int

text \<open>
  \<^verbatim>\<open>decomposeContainer\<close>. The remainder operator of JavaScript takes the sign of the
  dividend (\<open>smod\<close>); \<^verbatim>\<open>Math.floor(a / b)\<close> is \<open>div\<close>, which rounds down.
\<close>

definition decomposeContainer :: "int \<Rightarrow> Location" where
  "decomposeContainer containerId =
     (let CONTAINERS_PER_REGION = 4;
          REGIONS_PER_SECTOR = 256;
          SECTORS_PER_FACE = 256;
          container = containerId smod CONTAINERS_PER_REGION;
          remaining1 = containerId div CONTAINERS_PER_REGION;
          region = remaining1 smod REGIONS_PER_SECTOR;
          remaining2 = remaining1 div REGIONS_PER_SECTOR;
          sector = remaining2 smod SECTORS_PER_FACE;
          face = remaining2 div SECTORS_PER_FACE
      in \<lparr>face = face, sector = sector, region = region, container = container\<rparr>)"

text \<open>
  The icons of the 10 by 10 grid; \<open>GRID_HOLE\<close> is an array slot that was never
  assigned.
\<close>

datatype cell = GRID_EMPTY | GRID_MINING | GRID_SUCCESS | GRID_FAIL | GRID_SKIP | GRID_HOLE

text \<open>
  The fields of \<^verbatim>\<open>MinerContext\<close> that an iteration reads or writes. The handles
  (\<^verbatim>\<open>config\<close>, \<^verbatim>\<open>networkConfig\<close>, \<^verbatim>\<open>client\<close>, \<^verbatim>\<open>callbacks\<close>, \<^verbatim>\<open>ownerAddress\<close>) never
  change; what is done through them is an \<open>event\<close>.
\<close>

record MinerContext =
  stats :: MiningStats
  running :: bool
  feePerBlock :: int
  grid :: "cell list"
  gridIndex :: nat
  lastBalance :: int
  lastCubeBalance :: int
  lastUnprocessedCube :: int
  currentContainer :: int
  currentBlock :: int
  lastError :: string
  currentBattery :: int
  maxBattery :: int
  lastBatteryRefresh :: int

text \<open>
  \<^verbatim>\<open>ctx.grid[i] = v\<close>: an assignment past the end of a JavaScript array extends it,
  leaving holes.
\<close>

definition grid_set :: "cell list \<Rightarrow> nat \<Rightarrow> cell \<Rightarrow> cell list" where
  "grid_set g i v =
     (if i < length g then g[i := v]
      else g @ replicate (i - length g) GRID_HOLE @ [v])"

text \<open>Recording a call or a callback in the trace.\<close>

definition emit :: "event \<Rightarrow> world \<Rightarrow> world" where
  "emit ev w = w\<lparr>trace := trace w @ [ev]\<rparr>"

text \<open>\<^verbatim>\<open>result.error || "Unknown error"\<close>: an absent or empty message is falsy.\<close>

definition errorOr :: "string option \<Rightarrow> string \<Rightarrow> string" where
  "errorOr err d = (case err of None \<Rightarrow> d | Some m \<Rightarrow> if m = [] then d else m)"

text \<open>\<^verbatim>\<open>result.error?.toLowerCase() || ""\<close>.\<close>

definition lowerErrorOf :: "DestroyResult \<Rightarrow> string" where
  "lowerErrorOf result = (case error result of None \<Rightarrow> [] | Some m \<Rightarrow> toLowerCase m)"

text \<open>
  The test shared by both error paths of \<^verbatim>\<open>mineOnce\<close>: the lowercased message
  mentions the capability.
\<close>

definition capabilityRelated :: "string \<Rightarrow> bool" where
  "capabilityRelated lowerError =
     (str_includes lowerError ''capability'' \<or> str_includes lowerError ''budget'' \<or>
      str_includes lowerError ''exhausted'')"

definition batteryRelated :: "string \<Rightarrow> bool" where
  "batteryRelated lowerError =
     (str_includes lowerError ''battery depleted'' \<or> str_includes lowerError ''shift ended'')"

text \<open>
  The branches of \<^verbatim>\<open>mineOnce\<close> on the result of \<^verbatim>\<open>destroyBlock\<close>
  (\<^verbatim>\<open>if (result.success) ... else if (result.alreadyDestroyed) ... else ...\<close>).
\<close>

definition mineOnce_success :: "env \<Rightarrow> DestroyResult \<Rightarrow> MinerContext \<times> world \<Rightarrow> MinerContext \<times> world" where
  "mineOnce_success e result s =
     (let ctx = fst s; w = snd s;
          ctx1 = ctx\<lparr>stats := (stats ctx)\<lparr>blocksDestroyed := blocksDestroyed (stats ctx) + 1\<rparr>,
                     grid := grid_set (grid ctx) (gridIndex ctx) GRID_SUCCESS\<rparr>;
          w1 = emit (OnBlockDestroyed (currentContainer ctx) (currentBlock ctx) (txHash result)) w;
          ctx2 = (if currentBattery ctx1 > 0
                  then ctx1\<lparr>currentBattery := currentBattery ctx1 - 1\<rparr> else ctx1)
      in if blocksDestroyed (stats ctx2) mod 25 = 0 then
           (let w2 = emit GetLicenseStatus w1 in
            case license_outcome e of
              Inr status \<Rightarrow>
                (ctx2\<lparr>currentBattery := ls_currentBattery status,
                       maxBattery := ls_maxBattery status,
                       lastBatteryRefresh := now_batteryRefresh e\<rparr>, w2)
            | Inl msg \<Rightarrow> (ctx2, w2))
         else (ctx2, w1))"

definition mineOnce_already :: "MinerContext \<times> world \<Rightarrow> MinerContext \<times> world" where
  "mineOnce_already s =
     (let ctx = fst s; w = snd s in
      (ctx\<lparr>stats := (stats ctx)\<lparr>blocksAlreadyDestroyed := blocksAlreadyDestroyed (stats ctx) + 1\<rparr>,
            grid := grid_set (grid ctx) (gridIndex ctx) GRID_SKIP\<rparr>,
       emit (OnBlockAlreadyDestroyed (currentContainer ctx) (currentBlock ctx)) w))"

definition mineOnce_failure :: "DestroyResult \<Rightarrow> MinerContext \<times> world \<Rightarrow> MinerContext \<times> world" where
  "mineOnce_failure result s =
     (let ctx = fst s; w = snd s;
          ctx1 = ctx\<lparr>stats := (stats ctx)\<lparr>errors := errors (stats ctx) + 1\<rparr>,
                     grid := grid_set (grid ctx) (gridIndex ctx) GRID_FAIL,
                     lastError := errorOr (error result) ''Unknown error''\<rparr>;
          w1 = emit (OnError (errorOr (error result) ''Unknown error'')) w;
          lowerError = lowerErrorOf result;
          w2 = (if capabilityRelated lowerError then clearCapabilityCache w1 else w1)
      in if batteryRelated lowerError then
           (ctx1\<lparr>running := False\<rparr>, emit OnBatteryDepleted w2)
         else (ctx1, w2))"

definition mineOnce_result :: "env \<Rightarrow> DestroyResult \<Rightarrow> MinerContext \<times> world \<Rightarrow> MinerContext \<times> world" where
  "mineOnce_result e result s =
     (if success result then mineOnce_success e result s
      else if alreadyDestroyed result = Some True then mineOnce_already s
      else mineOnce_failure result s)"

text \<open>The \<^verbatim>\<open>catch (error)\<close> block of \<^verbatim>\<open>mineOnce\<close>, for an error with message \<open>errorMessage\<close>.\<close>

definition mineOnce_catch :: "string \<Rightarrow> MinerContext \<times> world \<Rightarrow> MinerContext \<times> world" where
  "mineOnce_catch errorMessage s =
     (let ctx = fst s; w = snd s;
          ctx1 = ctx\<lparr>stats := (stats ctx)\<lparr>errors := errors (stats ctx) + 1\<rparr>,
                     grid := grid_set (grid ctx) (gridIndex ctx) GRID_FAIL,
                     lastError := errorMessage\<rparr>;
          w1 = emit (OnError errorMessage) w;
          lowerErrorMsg = toLowerCase errorMessage
      in (ctx1, if capabilityRelated lowerErrorMsg then clearCapabilityCache w1 else w1))"

text \<open>
  The bookkeeping of \<^verbatim>\<open>mineOnce\<close> after a capability was acquired: when
  \<^verbatim>\<open>wasRefresh\<close> is set, the refresh counter and the refresh callback.
\<close>

definition noteRefresh :: "bool \<Rightarrow> CapabilityBundle \<Rightarrow> MinerContext \<times> world \<Rightarrow> MinerContext \<times> world" where
  "noteRefresh wasRefresh cap s =
     (if wasRefresh then
        ((fst s)\<lparr>stats := (stats (fst s))\<lparr>capabilityRefreshes :=
                    capabilityRefreshes (stats (fst s)) + 1\<rparr>\<rparr>,
         emit (OnCapabilityRefresh (budget (capability cap))) (snd s))
      else s)"

text \<open>
  The \<^verbatim>\<open>try\<close> block of \<^verbatim>\<open>mineOnce\<close> with its \<^verbatim>\<open>catch\<close>. Inside the block only
  \<^verbatim>\<open>getCapability\<close> can throw: \<^verbatim>\<open>destroyBlock\<close> and the battery resync catch their own
  errors, and the log file writer catches its own. (Callbacks that throw come in a
  section of their own.)
\<close>

definition mineOnce_try :: "env \<Rightarrow> MinerContext \<times> world \<Rightarrow> MinerContext \<times> world" where
  "mineOnce_try e s =
     (let wasRefresh = needsCapabilityRefresh (now_needsRefresh e) 1 (snd s);
          got = getCapability e 1 (snd s)
      in case fst got of
           Inl errorMessage \<Rightarrow> mineOnce_catch errorMessage (fst s, snd got)
         | Inr cap \<Rightarrow>
             (let s1 = noteRefresh wasRefresh cap (fst s, snd got);
                  destroyed = destroyBlock e (snd s1)
              in mineOnce_result e (fst destroyed) (fst s1, snd destroyed)))"

text \<open>The balance update after the \<^verbatim>\<open>try\<close> block, every fifth operation.\<close>

definition updateBalances :: "env \<Rightarrow> MinerContext \<times> world \<Rightarrow> MinerContext \<times> world" where
  "updateBalances e s =
     (let ctx = fst s; w = snd s in
      if (blocksDestroyed (stats ctx) + errors (stats ctx)) mod 5 = 0 then
        (case balance_outcome e of
           Inl msg \<Rightarrow> (ctx, emit GetBalance w)
         | Inr b \<Rightarrow>
             (ctx\<lparr>lastBalance := b,
                   lastUnprocessedCube := unprocessed_outcome e,
                   lastCubeBalance := cube_outcome e\<rparr>,
              emit GetCubeBalance (emit GetUnprocessedCubeBalance (emit GetBalance w))))
      else s)"

text \<open>The start of \<^verbatim>\<open>mineOnce\<close>: the random target, and the grid cell marked as being mined.\<close>

definition mineOnce_pick :: "env \<Rightarrow> MinerContext \<times> world \<Rightarrow> MinerContext \<times> world" where
  "mineOnce_pick e s =
     (let ctx = fst s in
      (ctx\<lparr>currentContainer := random_container e,
            currentBlock := random_block e,
            grid := grid_set (grid ctx) (gridIndex ctx) GRID_MINING\<rparr>, snd s))"

text \<open>After the \<^verbatim>\<open>try\<close> block: the next grid position, and a fresh grid once it is full.\<close>

definition mineOnce_advance :: "MinerContext \<times> world \<Rightarrow> MinerContext \<times> world" where
  "mineOnce_advance s =
     (let ctx1 = (fst s)\<lparr>gridIndex := gridIndex (fst s) + 1\<rparr> in
      (if gridIndex ctx1 \<ge> GRID_SIZE * GRID_SIZE
       then ctx1\<lparr>gridIndex := 0, grid := replicate (GRID_SIZE * GRID_SIZE) GRID_EMPTY\<rparr>
       else ctx1, snd s))"

definition mineOnce :: "env \<Rightarrow> MinerContext \<times> world \<Rightarrow> MinerContext \<times> world" where
  "mineOnce e s =
     (let s0 = mineOnce_pick e s;
          s1 = mineOnce_try e s0;
          s2 = mineOnce_advance s1;
          s3 = updateBalances e s2
      in (fst s3, emit (OnStats (stats (fst s3))) (snd s3)))"

text \<open>
  The state that \<open>mineOnce\<close> hands to the branch on the result, when the capability
  \<open>cap\<close> was acquired.
\<close>

definition branchInput :: "env \<Rightarrow> CapabilityBundle \<Rightarrow> MinerContext \<times> world \<Rightarrow> MinerContext \<times> world" where
  "branchInput e cap s =
     (fst (noteRefresh (needsCapabilityRefresh (now_needsRefresh e) 1 (snd s)) cap
             (fst (mineOnce_pick e s), snd (getCapability e 1 (snd s)))),
      snd (destroyBlock e
             (snd (noteRefresh (needsCapabilityRefresh (now_needsRefresh e) 1 (snd s)) cap
                     (fst (mineOnce_pick e s), snd (getCapability e 1 (snd s)))))))"

text \<open>
  One turn of the \<^verbatim>\<open>while (ctx.running)\<close> loop of \<^verbatim>\<open>startMining\<close>: the iteration, then
  the state file every tenth destroyed block (drawing the dashboard and sleeping change
  nothing).
\<close>

definition loopBody :: "env \<Rightarrow> MinerContext \<times> world \<Rightarrow> MinerContext \<times> world" where
  "loopBody e s =
     (let s1 = mineOnce e s in
      if blocksDestroyed (stats (fst s1)) mod 10 = 0
      then (fst s1, emit (SaveRuntimeState (stats (fst s1))) (snd s1))
      else s1)"

text \<open>
  The loop, run against the environments of the coming iterations. It returns the state
  in which the loop condition fails and the number of iterations it executed, and \<open>None\<close>
  when the loop is still running after the last environment given.
\<close>

fun miningLoop :: "env list \<Rightarrow> MinerContext \<times> world \<Rightarrow> ((MinerContext \<times> world) \<times> nat) option" where
  "miningLoop [] s = (if running (fst s) then None else Some (s, 0))"
| "miningLoop (e # es) s =
     (if running (fst s) then
        (case miningLoop es (loopBody e s) of
           None \<Rightarrow> None
         | Some (s', n) \<Rightarrow> Some (s', Suc n))
      else Some (s, 0))"


text \<open>
  The state after the given iterations when the loop condition holds before each of
  them.
\<close>

fun mineRun :: "env list \<Rightarrow> MinerContext \<times> world \<Rightarrow> MinerContext \<times> world" where
  "mineRun [] s = s"
| "mineRun (e # es) s = mineRun es (loopBody e s)"

text \<open>
  An iteration in state \<open>s\<close> is a success when the capability is acquired and the result
  of \<open>destroyBlock\<close> has \<open>success\<close> set; \<open>allSucceed\<close>: every iteration of a run is one.
\<close>

definition iterationSucceeds :: "env \<Rightarrow> MinerContext \<times> world \<Rightarrow> bool" where
  "iterationSucceeds e s =
     (case fst (getCapability e 1 (snd s)) of
        Inl msg \<Rightarrow> False
      | Inr cap \<Rightarrow> success (fst (destroyBlock e (snd s))))"

fun allSucceed :: "env list \<Rightarrow> MinerContext \<times> world \<Rightarrow> bool" where
  "allSucceed [] s = True"
| "allSucceed (e # es) s = (iterationSucceeds e s \<and> allSucceed es (loopBody e s))"

text \<open>Every call of the iteration succeeds.\<close>

definition callsSucceed :: "env \<Rightarrow> bool" where
  "callsSucceed e =
     ((case fetch_outcome e of Inl m \<Rightarrow> False | Inr b \<Rightarrow> True) \<and>
      simulate_outcome e = None \<and>
      (case write_outcome e of Inl m \<Rightarrow> False | Inr h \<Rightarrow> True) \<and>
      receipt_outcome e = Inr True)"

text \<open>\<^verbatim>\<open>createInitialStats\<close> and \<^verbatim>\<open>createMinerContext\<close>; \<open>dateNow\<close> is the clock reading.\<close>

definition createInitialStats :: "int \<Rightarrow> MiningStats" where
  "createInitialStats dateNow =
     \<lparr>blocksDestroyed = 0, blocksAlreadyDestroyed = 0, errors = 0, startTime = dateNow,
      capabilityRefreshes = 0\<rparr>"

definition createMinerContext :: "int \<Rightarrow> int \<Rightarrow> int \<Rightarrow> int \<Rightarrow> int \<Rightarrow> int \<Rightarrow> int \<Rightarrow> MinerContext" where
  "createMinerContext fee balance cubeBalance unprocessedCube battery batteryMax dateNow =
     \<lparr>stats = createInitialStats dateNow, running = False, feePerBlock = fee,
      grid = replicate (GRID_SIZE * GRID_SIZE) GRID_EMPTY, gridIndex = 0,
      lastBalance = balance, lastCubeBalance = cubeBalance,
      lastUnprocessedCube = unprocessedCube, currentContainer = 0, currentBlock = 0,
      lastError = [], currentBattery = battery, maxBattery = batteryMax,
      lastBatteryRefresh = dateNow\<rparr>"

section \<open>The iteration with callbacks that may throw\<close>

text \<open>
  The callbacks of \<^verbatim>\<open>MinerCallbacks\<close> and \<^verbatim>\<open>saveRuntimeState\<close> are code of the caller and
  of the file system. \<open>hooks\<close> says for each of them whether a call with the given
  arguments throws (\<open>Some msg\<close>: an error with message \<open>msg\<close>) or returns (\<open>None\<close>); a
  callback that is not registered returns. The definitions of the last section are the
  case in which every hook returns.
\<close>

record hooks =
  onBlockDestroyed_throws :: "int \<Rightarrow> int \<Rightarrow> string option \<Rightarrow> string option"
  onBlockAlreadyDestroyed_throws :: "int \<Rightarrow> int \<Rightarrow> string option"
  onError_throws :: "string \<Rightarrow> string option"
  onCapabilityRefresh_throws :: "int \<Rightarrow> string option"
  onStats_throws :: "MiningStats \<Rightarrow> string option"
  onBatteryDepleted_throws :: "string option"
  saveRuntimeState_throws :: "MiningStats \<Rightarrow> string option"

text \<open>
  The outcome of a piece of code that may throw: \<open>Inr s\<close>, it completes in state \<open>s\<close>;
  \<open>Inl (msg, s)\<close>, it throws an error with message \<open>msg\<close>, the context and the world being
  \<open>s\<close> at that moment (the context is mutated in place, so what was written stays).
\<close>

type_synonym outcome = "(string \<times> (MinerContext \<times> world)) + (MinerContext \<times> world)"

definition thrown :: "(string \<times> 'a) + 'b \<Rightarrow> string option" where
  "thrown r = (case r of Inl x \<Rightarrow> Some (fst x) | Inr y \<Rightarrow> None)"

text \<open>Calling a hook: the call is recorded, then it throws or returns.\<close>

definition invoke :: "string option \<Rightarrow> event \<Rightarrow> MinerContext \<times> world \<Rightarrow> outcome" where
  "invoke throws ev s =
     (case throws of
        None \<Rightarrow> Inr (fst s, emit ev (snd s))
      | Some msg \<Rightarrow> Inl (msg, (fst s, emit ev (snd s))))"

definition noteRefresh_hooks :: "hooks \<Rightarrow> bool \<Rightarrow> CapabilityBundle \<Rightarrow> MinerContext \<times> world \<Rightarrow> outcome" where
  "noteRefresh_hooks h wasRefresh cap s =
     (if wasRefresh then
        invoke (onCapabilityRefresh_throws h (budget (capability cap)))
          (OnCapabilityRefresh (budget (capability cap)))
          ((fst s)\<lparr>stats := (stats (fst s))\<lparr>capabilityRefreshes :=
                      capabilityRefreshes (stats (fst s)) + 1\<rparr>\<rparr>, snd s)
      else Inr s)"

definition mineOnce_success_hooks :: "hooks \<Rightarrow> env \<Rightarrow> DestroyResult \<Rightarrow> MinerContext \<times> world \<Rightarrow> outcome" where
  "mineOnce_success_hooks h e result s =
     (let ctx = fst s; w = snd s;
          ctx1 = ctx\<lparr>stats := (stats ctx)\<lparr>blocksDestroyed := blocksDestroyed (stats ctx) + 1\<rparr>,
                     grid := grid_set (grid ctx) (gridIndex ctx) GRID_SUCCESS\<rparr>
      in case invoke
                (onBlockDestroyed_throws h (currentContainer ctx) (currentBlock ctx) (txHash result))
                (OnBlockDestroyed (currentContainer ctx) (currentBlock ctx) (txHash result))
                (ctx1, w) of
           Inl x \<Rightarrow> Inl x
         | Inr s1 \<Rightarrow>
             (let ctx2 = (if currentBattery (fst s1) > 0
                          then (fst s1)\<lparr>currentBattery := currentBattery (fst s1) - 1\<rparr>
                          else fst s1)
              in if blocksDestroyed (stats ctx2) mod 25 = 0 then
                   (let w2 = emit GetLicenseStatus (snd s1) in
                    case license_outcome e of
                      Inr status \<Rightarrow>
                        Inr (ctx2\<lparr>currentBattery := ls_currentBattery status,
                                   maxBattery := ls_maxBattery status,
                                   lastBatteryRefresh := now_batteryRefresh e\<rparr>, w2)
                    | Inl msg \<Rightarrow> Inr (ctx2, w2))
                 else Inr (ctx2, snd s1)))"

definition mineOnce_already_hooks :: "hooks \<Rightarrow> MinerContext \<times> world \<Rightarrow> outcome" where
  "mineOnce_already_hooks h s =
     (let ctx = fst s; w = snd s in
      invoke (onBlockAlreadyDestroyed_throws h (currentContainer ctx) (currentBlock ctx))
        (OnBlockAlreadyDestroyed (currentContainer ctx) (currentBlock ctx))
        (ctx\<lparr>stats := (stats ctx)\<lparr>blocksAlreadyDestroyed :=
                   blocksAlreadyDestroyed (stats ctx) + 1\<rparr>,
              grid := grid_set (grid ctx) (gridIndex ctx) GRID_SKIP\<rparr>, w))"

definition mineOnce_failure_hooks :: "hooks \<Rightarrow> DestroyResult \<Rightarrow> MinerContext \<times> world \<Rightarrow> outcome" where
  "mineOnce_failure_hooks h result s =
     (let ctx = fst s; w = snd s;
          ctx1 = ctx\<lparr>stats := (stats ctx)\<lparr>errors := errors (stats ctx) + 1\<rparr>,
                     grid := grid_set (grid ctx) (gridIndex ctx) GRID_FAIL,
                     lastError := errorOr (error result) ''Unknown error''\<rparr>
      in case invoke (onError_throws h (errorOr (error result) ''Unknown error''))
                (OnError (errorOr (error result) ''Unknown error'')) (ctx1, w) of
           Inl x \<Rightarrow> Inl x
         | Inr s1 \<Rightarrow>
             (let lowerError = lowerErrorOf result;
                  w2 = (if capabilityRelated lowerError then clearCapabilityCache (snd s1)
                        else snd s1)
              in if batteryRelated lowerError then
                   invoke (onBatteryDepleted_throws h) OnBatteryDepleted
                     ((fst s1)\<lparr>running := False\<rparr>, w2)
                 else Inr (fst s1, w2)))"

definition mineOnce_result_hooks :: "hooks \<Rightarrow> env \<Rightarrow> DestroyResult \<Rightarrow> MinerContext \<times> world \<Rightarrow> outcome" where
  "mineOnce_result_hooks h e result s =
     (if success result then mineOnce_success_hooks h e result s
      else if alreadyDestroyed result = Some True then mineOnce_already_hooks h s
      else mineOnce_failure_hooks h result s)"

text \<open>
  The \<^verbatim>\<open>try\<close> block alone: it completes, or it throws, out of \<^verbatim>\<open>getCapability\<close> or out of
  a callback.
\<close>

definition mineOnce_try_hooks :: "hooks \<Rightarrow> env \<Rightarrow> MinerContext \<times> world \<Rightarrow> outcome" where
  "mineOnce_try_hooks h e s =
     (let wasRefresh = needsCapabilityRefresh (now_needsRefresh e) 1 (snd s);
          got = getCapability e 1 (snd s)
      in case fst got of
           Inl errorMessage \<Rightarrow> Inl (errorMessage, (fst s, snd got))
         | Inr cap \<Rightarrow>
             (case noteRefresh_hooks h wasRefresh cap (fst s, snd got) of
                Inl x \<Rightarrow> Inl x
              | Inr s1 \<Rightarrow>
                  (let destroyed = destroyBlock e (snd s1)
                   in mineOnce_result_hooks h e (fst destroyed) (fst s1, snd destroyed))))"

text \<open>
  The \<^verbatim>\<open>catch (error)\<close> block: what it writes, then the error callback, which is
  called inside the handler, then the cache.
\<close>

definition mineOnce_catch_hooks :: "hooks \<Rightarrow> string \<Rightarrow> MinerContext \<times> world \<Rightarrow> outcome" where
  "mineOnce_catch_hooks h errorMessage s =
     (let ctx = fst s; w = snd s;
          ctx1 = ctx\<lparr>stats := (stats ctx)\<lparr>errors := errors (stats ctx) + 1\<rparr>,
                     grid := grid_set (grid ctx) (gridIndex ctx) GRID_FAIL,
                     lastError := errorMessage\<rparr>
      in case invoke (onError_throws h errorMessage) (OnError errorMessage) (ctx1, w) of
           Inl x \<Rightarrow> Inl x
         | Inr s1 \<Rightarrow>
             Inr (fst s1,
                  if capabilityRelated (toLowerCase errorMessage)
                  then clearCapabilityCache (snd s1) else snd s1))"

text \<open>The \<^verbatim>\<open>try\<close> block with its \<^verbatim>\<open>catch\<close>.\<close>

definition mineOnce_guarded_hooks :: "hooks \<Rightarrow> env \<Rightarrow> MinerContext \<times> world \<Rightarrow> outcome" where
  "mineOnce_guarded_hooks h e s =
     (case mineOnce_try_hooks h e s of
        Inl x \<Rightarrow> mineOnce_catch_hooks h (fst x) (snd x)
      | Inr s1 \<Rightarrow> Inr s1)"

text \<open>
  What follows the \<^verbatim>\<open>try\<close> and \<^verbatim>\<open>catch\<close> in \<^verbatim>\<open>mineOnce\<close>: the grid position, the balances,
  and the stats callback, which is called outside any \<^verbatim>\<open>try\<close>.
\<close>

definition mineOnce_finish_hooks :: "hooks \<Rightarrow> env \<Rightarrow> MinerContext \<times> world \<Rightarrow> outcome" where
  "mineOnce_finish_hooks h e s1 =
     (let s3 = updateBalances e (mineOnce_advance s1)
      in invoke (onStats_throws h (stats (fst s3))) (OnStats (stats (fst s3))) s3)"

definition mineOnce_hooks :: "hooks \<Rightarrow> env \<Rightarrow> MinerContext \<times> world \<Rightarrow> outcome" where
  "mineOnce_hooks h e s =
     (case mineOnce_guarded_hooks h e (mineOnce_pick e s) of
        Inl x \<Rightarrow> Inl x
      | Inr s1 \<Rightarrow> mineOnce_finish_hooks h e s1)"

text \<open>One turn of the loop of \<^verbatim>\<open>startMining\<close>; \<^verbatim>\<open>saveRuntimeState\<close> is not in a \<^verbatim>\<open>try\<close>.\<close>

definition loopBody_hooks :: "hooks \<Rightarrow> env \<Rightarrow> MinerContext \<times> world \<Rightarrow> outcome" where
  "loopBody_hooks h e s =
     (case mineOnce_hooks h e s of
        Inl x \<Rightarrow> Inl x
      | Inr s1 \<Rightarrow>
          if blocksDestroyed (stats (fst s1)) mod 10 = 0
          then invoke (saveRuntimeState_throws h (stats (fst s1)))
                 (SaveRuntimeState (stats (fst s1))) s1
          else Inr s1)"

text \<open>
  The loop: \<open>Some (Inr (s, n))\<close>, it ended in state \<open>s\<close> after \<open>n\<close> iterations;
  \<open>Some (Inl (msg, s))\<close>, an error escaped and \<^verbatim>\<open>startMining\<close> rejects with it; \<open>None\<close>, the
  loop is still running after the last environment given.
\<close>

fun miningLoop_hooks ::
  "hooks \<Rightarrow> env list \<Rightarrow> MinerContext \<times> world \<Rightarrow>
     ((string \<times> (MinerContext \<times> world)) + ((MinerContext \<times> world) \<times> nat)) option" where
  "miningLoop_hooks h [] s = (if running (fst s) then None else Some (Inr (s, 0)))"
| "miningLoop_hooks h (e # es) s =
     (if running (fst s) then
        (case loopBody_hooks h e s of
           Inl x \<Rightarrow> Some (Inl x)
         | Inr s1 \<Rightarrow>
             (case miningLoop_hooks h es s1 of
                None \<Rightarrow> None
              | Some (Inl x) \<Rightarrow> Some (Inl x)
              | Some (Inr r) \<Rightarrow> Some (Inr (fst r, Suc (snd r)))))
      else Some (Inr (s, 0)))"

text \<open>
  The same two steps when the stats callback and \<^verbatim>\<open>saveRuntimeState\<close> return: the state
  \<open>mineOnce\<close> ends in after its \<^verbatim>\<open>try\<close> and \<^verbatim>\<open>catch\<close> left \<open>s1\<close>, and the state after the
  state file.
\<close>

definition mineOnce_finish :: "env \<Rightarrow> MinerContext \<times> world \<Rightarrow> MinerContext \<times> world" where
  "mineOnce_finish e s1 =
     (let s3 = updateBalances e (mineOnce_advance s1)
      in (fst s3, emit (OnStats (stats (fst s3))) (snd s3)))"

definition saveState :: "MinerContext \<times> world \<Rightarrow> MinerContext \<times> world" where
  "saveState s1 =
     (if blocksDestroyed (stats (fst s1)) mod 10 = 0
      then (fst s1, emit (SaveRuntimeState (stats (fst s1))) (snd s1))
      else s1)"

text \<open>
  Every hook returns; the error callback throws whatever it is given; the callback for a
  destroyed block throws.
\<close>

definition quiet :: hooks where
  "quiet = \<lparr>onBlockDestroyed_throws = (\<lambda>c b t. None),
            onBlockAlreadyDestroyed_throws = (\<lambda>c b. None),
            onError_throws = (\<lambda>m. None),
            onCapabilityRefresh_throws = (\<lambda>n. None),
            onStats_throws = (\<lambda>st. None),
            onBatteryDepleted_throws = None,
            saveRuntimeState_throws = (\<lambda>st. None)\<rparr>"



section \<open>Trace measures and sample data\<close>

text \<open>The number of network fetches of a capability recorded in a trace.\<close>

definition fetches :: "event list \<Rightarrow> nat" where
  "fetches t = count_list t FetchCapability"

text \<open>The number of battery resyncs (reads of the license status) recorded in a trace.\<close>

definition resyncs :: "event list \<Rightarrow> nat" where
  "resyncs t = count_list t GetLicenseStatus"

text \<open>The number of transactions submitted.\<close>

definition submissions :: "event list \<Rightarrow> nat" where
  "submissions t = count_list t WriteContract"

text \<open>
  Scenario A of the specification: a capability with budget 1, issued at 1000 and
  expiring at 1100, in the cache; and a fresh capability the endpoint would issue next.
\<close>

definition capA :: CapabilityBundle where
  "capA = \<lparr>capability = \<lparr>wallet = ''0xabc'', allowedModes = 1, nonce = 7, issuedAt = 1000,
                          expiresAt = 1100, budget = 1\<rparr>,
           signature = ''0xsig''\<rparr>"

definition capB :: CapabilityBundle where
  "capB = \<lparr>capability = \<lparr>wallet = ''0xabc'', allowedModes = 1, nonce = 8, issuedAt = 1001,
                          expiresAt = 1301, budget = 200\<rparr>,
           signature = ''0xsig2''\<rparr>"

definition worldA :: world where
  "worldA = \<lparr>capabilityCache =
               Some \<lparr>cached_bundle = capA, remainingBudget = 1, fetchedAt = 1000000\<rparr>,
             trace = []\<rparr>"

definition world0 :: world where
  "world0 = \<lparr>capabilityCache = None, trace = []\<rparr>"

text \<open>An iteration at clock 1000 s in which every call succeeds.\<close>

definition env_ok :: env where
  "env_ok = \<lparr>random_container = 1572863, random_block = 17,
             now_needsRefresh = 1000000, now_isCacheValid = 1000000,
             fetch_outcome = Inr capB, now_fetchedAt = 1000250,
             simulate_outcome = None, write_outcome = Inr ''0xhash'',
             receipt_outcome = Inr True,
             license_outcome = Inr \<lparr>ls_currentBattery = 40, ls_maxBattery = 100\<rparr>,
             now_batteryRefresh = 1000900,
             balance_outcome = Inr 5, unprocessed_outcome = 6, cube_outcome = 7\<rparr>"

text \<open>Scenario C: the simulation reverts because the battery is depleted.\<close>

definition env_depleted :: env where
  "env_depleted =
     env_ok\<lparr>simulate_outcome := Some ''execution reverted: Battery depleted - shift ended''\<rparr>"



text \<open>Every call succeeds but the read of the license status.\<close>

definition env_no_status :: env where
  "env_no_status = env_ok\<lparr>license_outcome := Inl ''request timed out''\<rparr>"

definition ctx0 :: MinerContext where
  "ctx0 = (createMinerContext 0 5 7 6 50 100 999000)\<lparr>running := True\<rparr>"

text \<open>A context in which 24 blocks have been destroyed and the battery estimate is 0.\<close>

definition ctx24 :: MinerContext where
  "ctx24 = ctx0\<lparr>stats := (stats ctx0)\<lparr>blocksDestroyed := 24\<rparr>, currentBattery := 0\<rparr>"

section \<open>The failure tables of the two phases, as tables\<close>

text \<open>
  A row of a classification table: the substrings that select the row and the result it
  gives. \<open>firstMatch\<close> reads a table in order and returns the result of the first row one
  of whose substrings occurs in the lowercased message.
\<close>

definition failed :: "string \<Rightarrow> DestroyResult" where
  "failed m = \<lparr>success = False, txHash = None, error = Some m, alreadyDestroyed = None\<rparr>"

definition alreadyProcessed :: "string \<Rightarrow> DestroyResult" where
  "alreadyProcessed m =
     \<lparr>success = False, txHash = None, error = Some m, alreadyDestroyed = Some True\<rparr>"

fun firstMatch :: "(string list \<times> DestroyResult) list \<Rightarrow> string \<Rightarrow> DestroyResult option" where
  "firstMatch [] lower = None"
| "firstMatch (row # rows) lower =
     (if list_ex (str_includes lower) (fst row) then Some (snd row)
      else firstMatch rows lower)"

text \<open>The table applied when the dry run throws.\<close>

definition simulationTable :: "(string list \<times> DestroyResult) list" where
  "simulationTable =
     [([''already destroyed''], alreadyProcessed ''Already destroyed''),
      ([''capability expired''], failed ''Capability expired''),
      ([''capability exhausted''], failed ''Capability exhausted (on-chain)''),
      ([''budget too low''], failed ''Capability budget too low (cap.budget < cost)''),
      ([''not authorized''], failed ''Not authorized for license''),
      ([''invalid capability signature''], failed ''Invalid capability signature''),
      ([''battery depleted''], failed ''Battery depleted - shift ended'')]"

text \<open>The table applied when the submission or the wait for the receipt throws.\<close>

definition submissionTable :: "(string list \<times> DestroyResult) list" where
  "submissionTable =
     [([''already destroyed'', ''tile already''], alreadyProcessed ''Already destroyed''),
      ([''capability expired''], failed ''Capability expired''),
      ([''capability exhausted'', ''budget''], failed ''Capability budget exhausted''),
      ([''not authorized''], failed ''Not authorized for drone''),
      ([''invalid container''], failed ''Invalid container ID''),
      ([''invalid tile''], failed ''Invalid tile ID''),
      ([''jackpot fee''], failed ''Jackpot fee too low'')]"

text \<open>What each phase returns when no row of its table matches.\<close>

definition simulationDefault :: "string \<Rightarrow> DestroyResult" where
  "simulationDefault m = failed (''Sim: '' @ take 150 m)"

definition submissionDefault :: "string \<Rightarrow> DestroyResult" where
  "submissionDefault m =
     (case revertMatch m of
        Some reason \<Rightarrow>
          if str_includes (toLowerCase reason) ''already'' then alreadyProcessed reason
          else failed reason
      | None \<Rightarrow> failed m)"

section \<open>Capability cache: proofs\<close>

lemma isCacheValid_iff:
  "isCacheValid t c w \<longleftrightarrow>
     (\<exists>cc. capabilityCache w = Some cc \<and>
           t div 1000 < expiresAt (capability (cached_bundle cc)) - 30 \<and>
           c \<le> remainingBudget cc)"
  by (auto simp: isCacheValid_def Let_def split: option.splits)

lemma getCapability_hit:
  assumes "capabilityCache w = Some cc"
    and "now_isCacheValid e div 1000 < expiresAt (capability (cached_bundle cc)) - 30"
    and "c \<le> remainingBudget cc"
  shows "getCapability e c w =
           (Inr (cached_bundle cc),
            w\<lparr>capabilityCache := Some (cc\<lparr>remainingBudget := remainingBudget cc - c\<rparr>)\<rparr>)"
  using assms by (simp add: getCapability_def isCacheValid_iff)

lemma getCapability_miss:
  assumes "\<not> isCacheValid (now_isCacheValid e) c w"
  shows "getCapability e c w =
           (case fetch_outcome e of
              Inl msg \<Rightarrow> (Inl msg, w\<lparr>trace := trace w @ [FetchCapability]\<rparr>)
            | Inr b \<Rightarrow>
                (Inr b,
                 \<lparr>capabilityCache =
                    Some \<lparr>cached_bundle = b, remainingBudget = budget (capability b) - c,
                          fetchedAt = now_fetchedAt e\<rparr>,
                  trace = trace w @ [FetchCapability]\<rparr>))"
  using assms by (simp add: getCapability_def Let_def split: sum.splits)


lemma getCapability_trace:
  "trace (snd (getCapability e c w)) =
     (if isCacheValid (now_isCacheValid e) c w then trace w else trace w @ [FetchCapability])"
  by (auto simp: getCapability_def isCacheValid_iff Let_def split: sum.splits)

lemma getCapability_Inr_iff:
  "(\<exists>b. fst (getCapability e c w) = Inr b) \<longleftrightarrow>
     (isCacheValid (now_isCacheValid e) c w \<or> (\<exists>b. fetch_outcome e = Inr b))"
  by (auto simp: getCapability_def isCacheValid_iff Let_def split: sum.splits)

text \<open>
  Claim C2. \<open>getCapability\<close> with cost \<open>c\<close>: when the cache holds an entry, the clock (in
  seconds) is below \<open>expiresAt - 30\<close> and \<open>remainingBudget \<ge> c\<close>, it returns the cached bundle,
  makes no call at all (the trace is unchanged, so no fetch) and lowers \<open>remainingBudget\<close> by
  exactly \<open>c\<close>. Otherwise it makes exactly one fetch and, with \<open>fresh\<close> the bundle fetched,
  replaces the entry by one with \<open>remainingBudget = budget fresh - c\<close> and returns \<open>fresh\<close>.
\<close>

theorem getCapability_reuse_or_refresh:
  "(\<forall>cc. capabilityCache w = Some cc \<and>
         now_isCacheValid e div 1000 < expiresAt (capability (cached_bundle cc)) - 30 \<and>
         c \<le> remainingBudget cc \<longrightarrow>
         fst (getCapability e c w) = Inr (cached_bundle cc) \<and>
         trace (snd (getCapability e c w)) = trace w \<and>
         fetches (trace (snd (getCapability e c w))) = fetches (trace w) \<and>
         capabilityCache (snd (getCapability e c w)) =
           Some (cc\<lparr>remainingBudget := remainingBudget cc - c\<rparr>)) \<and>
   (\<not> (\<exists>cc. capabilityCache w = Some cc \<and>
         now_isCacheValid e div 1000 < expiresAt (capability (cached_bundle cc)) - 30 \<and>
         c \<le> remainingBudget cc) \<and> fetch_outcome e = Inr fresh \<longrightarrow>
         fst (getCapability e c w) = Inr fresh \<and>
         trace (snd (getCapability e c w)) = trace w @ [FetchCapability] \<and>
         fetches (trace (snd (getCapability e c w))) = fetches (trace w) + 1 \<and>
         capabilityCache (snd (getCapability e c w)) =
           Some \<lparr>cached_bundle = fresh, remainingBudget = budget (capability fresh) - c,
                 fetchedAt = now_fetchedAt e\<rparr>)"
proof (intro conjI allI impI)
  fix cc
  assume "capabilityCache w = Some cc \<and>
         now_isCacheValid e div 1000 < expiresAt (capability (cached_bundle cc)) - 30 \<and>
         c \<le> remainingBudget cc"
  then have eq: "getCapability e c w =
           (Inr (cached_bundle cc),
            w\<lparr>capabilityCache := Some (cc\<lparr>remainingBudget := remainingBudget cc - c\<rparr>)\<rparr>)"
    by (simp add: getCapability_hit)
  show "fst (getCapability e c w) = Inr (cached_bundle cc)" by (simp add: eq)
  show "trace (snd (getCapability e c w)) = trace w" by (simp add: eq)
  show "fetches (trace (snd (getCapability e c w))) = fetches (trace w)" by (simp add: eq)
  show "capabilityCache (snd (getCapability e c w)) =
           Some (cc\<lparr>remainingBudget := remainingBudget cc - c\<rparr>)" by (simp add: eq)
next
  assume h: "\<not> (\<exists>cc. capabilityCache w = Some cc \<and>
         now_isCacheValid e div 1000 < expiresAt (capability (cached_bundle cc)) - 30 \<and>
         c \<le> remainingBudget cc) \<and> fetch_outcome e = Inr fresh"
  then have inv: "\<not> isCacheValid (now_isCacheValid e) c w"
    by (simp only: isCacheValid_iff) simp
  have eq: "getCapability e c w =
      (Inr fresh,
       \<lparr>capabilityCache =
          Some \<lparr>cached_bundle = fresh, remainingBudget = budget (capability fresh) - c,
                fetchedAt = now_fetchedAt e\<rparr>,
        trace = trace w @ [FetchCapability]\<rparr>)"
    using h by (simp add: getCapability_miss [OF inv])
  show "fst (getCapability e c w) = Inr fresh" by (simp add: eq)
  show "trace (snd (getCapability e c w)) = trace w @ [FetchCapability]" by (simp add: eq)
  show "fetches (trace (snd (getCapability e c w))) = fetches (trace w) + 1"
    by (simp add: eq fetches_def)
  show "capabilityCache (snd (getCapability e c w)) =
           Some \<lparr>cached_bundle = fresh, remainingBudget = budget (capability fresh) - c,
                 fetchedAt = now_fetchedAt e\<rparr>" by (simp add: eq)
qed

text \<open>
  Scenario A: the cached capability with budget 1 serves \<open>getCapability 1\<close> at clock 1000
  from the cache, leaving budget 0; the next call, at clock 1001, fetches.
\<close>

theorem getCapability_reuse_or_refresh_witness:
  "fst (getCapability env_ok 1 worldA) = Inr capA \<and>
   fetches (trace (snd (getCapability env_ok 1 worldA))) = 0 \<and>
   capabilityCache (snd (getCapability env_ok 1 worldA)) =
     Some \<lparr>cached_bundle = capA, remainingBudget = 0, fetchedAt = 1000000\<rparr> \<and>
   fst (getCapability (env_ok\<lparr>now_isCacheValid := 1001000\<rparr>) 1
          (snd (getCapability env_ok 1 worldA))) = Inr capB \<and>
   fetches (trace (snd (getCapability (env_ok\<lparr>now_isCacheValid := 1001000\<rparr>) 1
          (snd (getCapability env_ok 1 worldA))))) = 1 \<and>
   capabilityCache (snd (getCapability (env_ok\<lparr>now_isCacheValid := 1001000\<rparr>) 1
          (snd (getCapability env_ok 1 worldA)))) =
     Some \<lparr>cached_bundle = capB, remainingBudget = 199, fetchedAt = 1000250\<rparr>"
proof -
  let ?cc = "\<lparr>cached_bundle = capA, remainingBudget = 1, fetchedAt = 1000000\<rparr>"
  let ?w1 = "snd (getCapability env_ok 1 worldA)"
  let ?e2 = "env_ok\<lparr>now_isCacheValid := 1001000\<rparr>"
  have hit: "capabilityCache worldA = Some ?cc \<and>
      now_isCacheValid env_ok div 1000 < expiresAt (capability (cached_bundle ?cc)) - 30 \<and>
      1 \<le> remainingBudget ?cc"
    by (simp add: worldA_def env_ok_def capA_def)
  from getCapability_reuse_or_refresh [of worldA env_ok 1 capB] hit
  have first: "fst (getCapability env_ok 1 worldA) = Inr (cached_bundle ?cc) \<and>
      trace ?w1 = trace worldA \<and> fetches (trace ?w1) = fetches (trace worldA) \<and>
      capabilityCache ?w1 = Some (?cc\<lparr>remainingBudget := remainingBudget ?cc - 1\<rparr>)"
    by blast
  then have cache1: "capabilityCache ?w1 =
      Some \<lparr>cached_bundle = capA, remainingBudget = 0, fetchedAt = 1000000\<rparr>"
    by simp
  have fo: "fetch_outcome ?e2 = Inr capB" by (simp add: env_ok_def)
  have "\<not> (\<exists>cc. capabilityCache ?w1 = Some cc \<and>
      now_isCacheValid ?e2 div 1000 < expiresAt (capability (cached_bundle cc)) - 30 \<and>
      1 \<le> remainingBudget cc)"
    using cache1 by auto
  with fo have miss: "\<not> (\<exists>cc. capabilityCache ?w1 = Some cc \<and>
      now_isCacheValid ?e2 div 1000 < expiresAt (capability (cached_bundle cc)) - 30 \<and>
      1 \<le> remainingBudget cc) \<and> fetch_outcome ?e2 = Inr capB"
    by blast
  from getCapability_reuse_or_refresh [of ?w1 ?e2 1 capB] miss
  have second: "fst (getCapability ?e2 1 ?w1) = Inr capB \<and>
      trace (snd (getCapability ?e2 1 ?w1)) = trace ?w1 @ [FetchCapability] \<and>
      fetches (trace (snd (getCapability ?e2 1 ?w1))) = fetches (trace ?w1) + 1 \<and>
      capabilityCache (snd (getCapability ?e2 1 ?w1)) =
        Some \<lparr>cached_bundle = capB, remainingBudget = budget (capability capB) - 1,
              fetchedAt = now_fetchedAt ?e2\<rparr>"
    by blast
  have t0: "fetches (trace worldA) = 0" by (simp add: worldA_def fetches_def)
  have bud: "budget (capability capB) - 1 = 199" by (simp add: capB_def)
  have fa: "now_fetchedAt ?e2 = 1000250" by (simp add: env_ok_def)
  from first second cache1 t0 bud fa show ?thesis
    by (simp add: fetches_def)
qed

text \<open>
  Claim C8. After \<open>clearCapabilityCache\<close> the next \<open>getCapability\<close> makes a fetch, whatever
  the cache held and whatever the cost and the clock; and \<open>getRemainingBudget\<close> is 0
  whenever the cache holds no entry.
\<close>

theorem clear_forces_fetch:
  "trace (snd (getCapability e c (clearCapabilityCache w))) = trace w @ [FetchCapability] \<and>
   fetches (trace (snd (getCapability e c (clearCapabilityCache w)))) = fetches (trace w) + 1 \<and>
   capabilityCache (clearCapabilityCache w) = None \<and>
   (capabilityCache w = None \<longrightarrow> getRemainingBudget w = 0)"
proof -
  have inv: "\<not> isCacheValid (now_isCacheValid e) c (clearCapabilityCache w)"
    by (simp add: isCacheValid_def clearCapabilityCache_def)
  have tr: "trace (snd (getCapability e c (clearCapabilityCache w))) = trace w @ [FetchCapability]"
    using inv by (simp add: getCapability_trace clearCapabilityCache_def)
  have fe: "fetches (trace (snd (getCapability e c (clearCapabilityCache w)))) =
      fetches (trace w) + 1"
    by (simp only: tr) (simp add: fetches_def)
  have cl: "capabilityCache (clearCapabilityCache w) = None"
    by (simp add: clearCapabilityCache_def)
  have rb: "capabilityCache w = None \<longrightarrow> getRemainingBudget w = 0"
    by (simp add: getRemainingBudget_def)
  from tr fe cl rb show ?thesis by blast
qed

text \<open>
  The entry of scenario A is valid at clock 1000 and would be served from the cache; once
  cleared, the same call fetches, and the remaining budget reads 0.
\<close>

theorem clear_forces_fetch_witness:
  "isCacheValid (now_isCacheValid env_ok) 1 worldA \<and>
   fetches (trace (snd (getCapability env_ok 1 worldA))) = 0 \<and>
   fetches (trace (snd (getCapability env_ok 1 (clearCapabilityCache worldA)))) = 1 \<and>
   getRemainingBudget (clearCapabilityCache worldA) = 0"
proof -
  note T = clear_forces_fetch [of env_ok 1 worldA]
  note U = clear_forces_fetch [of env_ok 1 "clearCapabilityCache worldA"]
  have v: "isCacheValid (now_isCacheValid env_ok) 1 worldA"
    by (simp add: isCacheValid_def worldA_def env_ok_def capA_def)
  have a: "fetches (trace (snd (getCapability env_ok 1 worldA))) = 0"
    using v by (simp add: getCapability_trace worldA_def fetches_def)
  have b: "fetches (trace worldA) = 0" by (simp add: worldA_def fetches_def)
  have c: "capabilityCache (clearCapabilityCache worldA) = None" using T by simp
  from U c have d: "getRemainingBudget (clearCapabilityCache worldA) = 0" by simp
  from T b have e: "fetches (trace (snd (getCapability env_ok 1 (clearCapabilityCache worldA)))) = 1"
    by (simp add: fetches_def)
  from v a e d show ?thesis by blast
qed

text \<open>
  \<open>isCacheValid\<close> uses the clock in whole seconds; and the clock only moves forward: a
  refresh announced at one reading is still needed at any later one.
\<close>

lemma isCacheValid_same_second:
  "t div 1000 = t' div 1000 \<Longrightarrow> isCacheValid t c w = isCacheValid t' c w"
  by (simp add: isCacheValid_iff)

lemma needsCapabilityRefresh_later:
  "t1 \<le> t2 \<Longrightarrow> needsCapabilityRefresh t1 c w \<Longrightarrow> needsCapabilityRefresh t2 c w"
proof -
  assume le: "t1 \<le> t2" and n: "needsCapabilityRefresh t1 c w"
  from le have "t1 div 1000 \<le> t2 div 1000" by (rule zdiv_mono1) simp
  with n show ?thesis
    by (auto simp: needsCapabilityRefresh_def isCacheValid_iff)
qed

text \<open>
  Claim C9, as stated, fails: \<open>needsCapabilityRefresh\<close> and the \<open>getCapability\<close> that
  follows it each read the clock. With the entry of scenario A in the cache,
  \<open>needsCapabilityRefresh\<close> at 1069.999 s answers that no refresh is needed, and
  \<open>getCapability\<close> on the same cache one millisecond later, 30 s before the expiry,
  fetches.
\<close>

theorem needsCapabilityRefresh_clock_counterexample:
  "\<not> needsCapabilityRefresh 1069999 1 worldA \<and>
   trace (snd (getCapability (env_ok\<lparr>now_isCacheValid := 1070000\<rparr>) 1 worldA)) =
     [FetchCapability]"
proof -
  have a: "\<not> needsCapabilityRefresh 1069999 1 worldA"
    by (simp add: needsCapabilityRefresh_def isCacheValid_def worldA_def capA_def)
  have "\<not> isCacheValid (now_isCacheValid (env_ok\<lparr>now_isCacheValid := 1070000\<rparr>)) 1 worldA"
    by (simp add: isCacheValid_def worldA_def capA_def)
  then have b: "trace (snd (getCapability (env_ok\<lparr>now_isCacheValid := 1070000\<rparr>) 1 worldA)) =
      [FetchCapability]"
    by (simp add: getCapability_trace worldA_def)
  from a b show ?thesis by blast
qed

text \<open>
  Claim C9, amended. \<open>needsCapabilityRefresh\<close> reads the cache and its own clock and
  returns a boolean; it is a function of the world and yields no new world. When its
  clock reading and that of the following \<open>getCapability\<close> fall in the same second, it is
  true exactly when \<open>getCapability\<close>, on that world and for that cost, makes a fetch, and
  false exactly when \<open>getCapability\<close> makes no call. When the reading of \<open>getCapability\<close> is
  later, a true answer still means a fetch.
\<close>

theorem needsCapabilityRefresh_mirrors_same_second:
  "(t div 1000 = now_isCacheValid e div 1000 \<longrightarrow>
      (needsCapabilityRefresh t c w \<longleftrightarrow>
         trace (snd (getCapability e c w)) = trace w @ [FetchCapability]) \<and>
      (needsCapabilityRefresh t c w \<longleftrightarrow>
         fetches (trace (snd (getCapability e c w))) = fetches (trace w) + 1) \<and>
      (\<not> needsCapabilityRefresh t c w \<longleftrightarrow>
         trace (snd (getCapability e c w)) = trace w)) \<and>
   (t \<le> now_isCacheValid e \<and> needsCapabilityRefresh t c w \<longrightarrow>
      trace (snd (getCapability e c w)) = trace w @ [FetchCapability] \<and>
      fetches (trace (snd (getCapability e c w))) = fetches (trace w) + 1)"
proof (intro conjI impI)
  assume same: "t div 1000 = now_isCacheValid e div 1000"
  have eq: "needsCapabilityRefresh t c w = (\<not> isCacheValid (now_isCacheValid e) c w)"
    by (simp add: needsCapabilityRefresh_def isCacheValid_same_second [OF same])
  show "needsCapabilityRefresh t c w \<longleftrightarrow>
      trace (snd (getCapability e c w)) = trace w @ [FetchCapability]"
    by (simp add: eq getCapability_trace)
  show "needsCapabilityRefresh t c w \<longleftrightarrow>
      fetches (trace (snd (getCapability e c w))) = fetches (trace w) + 1"
    by (simp add: eq getCapability_trace fetches_def)
  show "\<not> needsCapabilityRefresh t c w \<longleftrightarrow> trace (snd (getCapability e c w)) = trace w"
    by (simp add: eq getCapability_trace)
next
  assume a: "t \<le> now_isCacheValid e \<and> needsCapabilityRefresh t c w"
  then have "needsCapabilityRefresh (now_isCacheValid e) c w"
    using needsCapabilityRefresh_later by blast
  then have inv: "\<not> isCacheValid (now_isCacheValid e) c w"
    by (simp add: needsCapabilityRefresh_def)
  show "trace (snd (getCapability e c w)) = trace w @ [FetchCapability]"
    using inv by (simp add: getCapability_trace)
  show "fetches (trace (snd (getCapability e c w))) = fetches (trace w) + 1"
    using inv by (simp add: getCapability_trace fetches_def)
qed

text \<open>
  The entry of scenario A, both readings in second 1000: cost 1 needs no refresh and
  \<open>getCapability\<close> makes no call; cost 2 needs one and \<open>getCapability\<close> fetches. A refresh
  needed for cost 2 at 1069.999 s is made at 1070 s.
\<close>

theorem needsCapabilityRefresh_mirrors_same_second_witness:
  "\<not> needsCapabilityRefresh 1000999 1 worldA \<and>
   trace (snd (getCapability env_ok 1 worldA)) = [] \<and>
   needsCapabilityRefresh 1000999 2 worldA \<and>
   trace (snd (getCapability env_ok 2 worldA)) = [FetchCapability] \<and>
   trace (snd (getCapability (env_ok\<lparr>now_isCacheValid := 1070000\<rparr>) 2 worldA)) =
     [FetchCapability]"
proof -
  let ?e2 = "env_ok\<lparr>now_isCacheValid := 1070000\<rparr>"
  have same: "(1000999::int) div 1000 = now_isCacheValid env_ok div 1000"
    by (simp add: env_ok_def)
  have a: "\<not> needsCapabilityRefresh 1000999 1 worldA"
    by (simp add: needsCapabilityRefresh_def isCacheValid_def worldA_def capA_def)
  have b: "needsCapabilityRefresh 1000999 2 worldA"
    by (simp add: needsCapabilityRefresh_def isCacheValid_def worldA_def capA_def)
  have c: "needsCapabilityRefresh 1069999 2 worldA"
    by (simp add: needsCapabilityRefresh_def isCacheValid_def worldA_def capA_def)
  have le: "(1069999::int) \<le> now_isCacheValid ?e2" by simp
  have t: "trace worldA = []" by (simp add: worldA_def)
  note T1 = needsCapabilityRefresh_mirrors_same_second [of 1000999 env_ok 1 worldA]
  note T2 = needsCapabilityRefresh_mirrors_same_second [of 1000999 env_ok 2 worldA]
  note T3 = needsCapabilityRefresh_mirrors_same_second [of 1069999 ?e2 2 worldA]
  from T1 same a have r1: "trace (snd (getCapability env_ok 1 worldA)) = trace worldA"
    by blast
  from T2 same b have r2: "trace (snd (getCapability env_ok 2 worldA)) =
      trace worldA @ [FetchCapability]"
    by blast
  from T3 le c have r3: "trace (snd (getCapability ?e2 2 worldA)) =
      trace worldA @ [FetchCapability]"
    by blast
  from a b r1 r2 r3 t show ?thesis by simp
qed

text \<open>
  Claim C10. With cost 0 on an empty cache \<open>getCapability\<close> fetches and the entry it stores
  has the whole budget of the fetched capability left; with cost 0 on a valid entry it
  returns the cached bundle and the world is unchanged.
\<close>

theorem getCapability_cost_zero:
  "(capabilityCache w = None \<and> fetch_outcome e = Inr fresh \<longrightarrow>
      fst (getCapability e 0 w) = Inr fresh \<and>
      fetches (trace (snd (getCapability e 0 w))) = fetches (trace w) + 1 \<and>
      getRemainingBudget (snd (getCapability e 0 w)) = budget (capability fresh)) \<and>
   (capabilityCache w = Some cc \<and> isCacheValid (now_isCacheValid e) 0 w \<longrightarrow>
      getCapability e 0 w = (Inr (cached_bundle cc), w) \<and>
      getRemainingBudget (snd (getCapability e 0 w)) = remainingBudget cc)"
proof (intro conjI impI)
  assume h: "capabilityCache w = None \<and> fetch_outcome e = Inr fresh"
  then have inv: "\<not> isCacheValid (now_isCacheValid e) 0 w"
    by (simp add: isCacheValid_def)
  have eq: "getCapability e 0 w =
      (Inr fresh,
       \<lparr>capabilityCache =
          Some \<lparr>cached_bundle = fresh, remainingBudget = budget (capability fresh) - 0,
                fetchedAt = now_fetchedAt e\<rparr>,
        trace = trace w @ [FetchCapability]\<rparr>)"
    using h by (simp add: getCapability_miss [OF inv])
  show "fst (getCapability e 0 w) = Inr fresh" by (simp add: eq)
  show "fetches (trace (snd (getCapability e 0 w))) = fetches (trace w) + 1"
    by (simp add: eq fetches_def)
  show "getRemainingBudget (snd (getCapability e 0 w)) = budget (capability fresh)"
    by (simp add: eq getRemainingBudget_def)
next
  assume h: "capabilityCache w = Some cc \<and> isCacheValid (now_isCacheValid e) 0 w"
  then have eq: "getCapability e 0 w = (Inr (cached_bundle cc), w)"
    by (simp add: getCapability_def)
  show "getCapability e 0 w = (Inr (cached_bundle cc), w)" by (rule eq)
  show "getRemainingBudget (snd (getCapability e 0 w)) = remainingBudget cc"
    using h by (simp add: eq getRemainingBudget_def)
qed

theorem getCapability_cost_zero_witness:
  "fst (getCapability env_ok 0 world0) = Inr capB \<and>
   fetches (trace (snd (getCapability env_ok 0 world0))) = 1 \<and>
   getRemainingBudget (snd (getCapability env_ok 0 world0)) = 200 \<and>
   getCapability env_ok 0 worldA = (Inr capA, worldA) \<and>
   getRemainingBudget (snd (getCapability env_ok 0 worldA)) = 1"
proof -
  let ?cc = "\<lparr>cached_bundle = capA, remainingBudget = 1, fetchedAt = 1000000\<rparr>"
  have h1: "capabilityCache world0 = None \<and> fetch_outcome env_ok = Inr capB"
    by (simp add: world0_def env_ok_def)
  have h2: "capabilityCache worldA = Some ?cc \<and> isCacheValid (now_isCacheValid env_ok) 0 worldA"
    by (simp add: isCacheValid_def worldA_def env_ok_def capA_def)
  have t: "fetches (trace world0) = 0" by (simp add: world0_def fetches_def)
  from getCapability_cost_zero [of world0 env_ok capB ?cc] h1
  have a: "fst (getCapability env_ok 0 world0) = Inr capB \<and>
      fetches (trace (snd (getCapability env_ok 0 world0))) = fetches (trace world0) + 1 \<and>
      getRemainingBudget (snd (getCapability env_ok 0 world0)) = budget (capability capB)"
    by blast
  from getCapability_cost_zero [of worldA env_ok capB ?cc] h2
  have b: "getCapability env_ok 0 worldA = (Inr (cached_bundle ?cc), worldA) \<and>
      getRemainingBudget (snd (getCapability env_ok 0 worldA)) = remainingBudget ?cc"
    by blast
  have bud: "budget (capability capB) = 200" by (simp add: capB_def)
  from a t bud have a': "fst (getCapability env_ok 0 world0) = Inr capB \<and>
      fetches (trace (snd (getCapability env_ok 0 world0))) = 1 \<and>
      getRemainingBudget (snd (getCapability env_ok 0 world0)) = 200"
    by simp
  have cb: "cached_bundle ?cc = capA" and rb: "remainingBudget ?cc = 1"
    by simp_all
  from b have b': "getCapability env_ok 0 worldA = (Inr capA, worldA) \<and>
      getRemainingBudget (snd (getCapability env_ok 0 worldA)) = 1"
    unfolding cb rb .
  from a' b' show ?thesis by blast
qed

section \<open>Target decomposition: proofs\<close>

text \<open>On a non-negative id the remainders of JavaScript are those of \<open>mod\<close>.\<close>

lemma decomposeContainer_nonneg:
  assumes "0 \<le> containerId"
  shows "decomposeContainer containerId =
           \<lparr>face = containerId div 4 div 256 div 256,
            sector = containerId div 4 div 256 mod 256,
            region = containerId div 4 mod 256,
            container = containerId mod 4\<rparr>"
proof -
  have r1: "0 \<le> containerId div 4" using assms by simp
  then have r2: "0 \<le> containerId div 4 div 256" by simp
  have m1: "containerId smod 4 = containerId mod 4"
    using assms by (rule smod_mod_positive) simp
  have m2: "(containerId div 4) smod 256 = (containerId div 4) mod 256"
    using r1 by (rule smod_mod_positive) simp
  have m3: "(containerId div 4 div 256) smod 256 = (containerId div 4 div 256) mod 256"
    using r2 by (rule smod_mod_positive) simp
  show ?thesis
    unfolding decomposeContainer_def Let_def m1 m2 m3 by (rule refl)
qed

text \<open>
  Claim C4. For every container id in \<open>[0, CONTAINERS_PER_LAYER)\<close> the fixed-radix
  reconstruction from the four components of \<open>decomposeContainer\<close> gives the id back.
\<close>

theorem decomposeContainer_reconstruct:
  assumes "0 \<le> containerId" and "containerId < CONTAINERS_PER_LAYER"
  shows "((face (decomposeContainer containerId) * 256
            + sector (decomposeContainer containerId)) * 256
            + region (decomposeContainer containerId)) * 4
            + container (decomposeContainer containerId) = containerId"
proof -
  define q1 where "q1 = containerId div 4"
  define q2 where "q2 = q1 div 256"
  have d: "decomposeContainer containerId =
      \<lparr>face = q2 div 256, sector = q2 mod 256, region = q1 mod 256,
       container = containerId mod 4\<rparr>"
    unfolding q2_def q1_def using assms(1) by (rule decomposeContainer_nonneg)
  have e3: "q2 div 256 * 256 + q2 mod 256 = q2" by (rule div_mult_mod_eq)
  have e2: "q2 * 256 + q1 mod 256 = q1" unfolding q2_def by (rule div_mult_mod_eq)
  have e1: "q1 * 4 + containerId mod 4 = containerId" unfolding q1_def by (rule div_mult_mod_eq)
  have "((face (decomposeContainer containerId) * 256
            + sector (decomposeContainer containerId)) * 256
            + region (decomposeContainer containerId)) * 4
            + container (decomposeContainer containerId)
        = ((q2 div 256 * 256 + q2 mod 256) * 256 + q1 mod 256) * 4 + containerId mod 4"
    by (simp only: d Location.simps)
  also have "\<dots> = containerId" by (simp only: e3 e2 e1)
  finally show ?thesis .
qed

text \<open>The last container of the layer.\<close>

theorem decomposeContainer_reconstruct_witness:
  "decomposeContainer 1572863 = \<lparr>face = 5, sector = 255, region = 255, container = 3\<rparr> \<and>
   ((5 * 256 + 255) * 256 + 255) * 4 + 3 = (1572863 :: int)"
proof -
  have a: "(0::int) \<le> 1572863" by simp
  have b: "(1572863::int) < CONTAINERS_PER_LAYER" by (simp add: CONTAINERS_PER_LAYER_def)
  have d: "decomposeContainer 1572863 = \<lparr>face = 5, sector = 255, region = 255, container = 3\<rparr>"
    by (simp add: decomposeContainer_nonneg)
  from decomposeContainer_reconstruct [OF a b] d show ?thesis by simp
qed

text \<open>Within the range the components are digits, and the face is below 6.\<close>

lemma decomposeContainer_digits:
  assumes "0 \<le> containerId" and "containerId < CONTAINERS_PER_LAYER"
  shows "0 \<le> container (decomposeContainer containerId) \<and>
         container (decomposeContainer containerId) < 4 \<and>
         0 \<le> region (decomposeContainer containerId) \<and>
         region (decomposeContainer containerId) < 256 \<and>
         0 \<le> sector (decomposeContainer containerId) \<and>
         sector (decomposeContainer containerId) < 256 \<and>
         0 \<le> face (decomposeContainer containerId) \<and>
         face (decomposeContainer containerId) < 6"
proof -
  define q1 where "q1 = containerId div 4"
  define q2 where "q2 = q1 div 256"
  have d: "decomposeContainer containerId =
      \<lparr>face = q2 div 256, sector = q2 mod 256, region = q1 mod 256,
       container = containerId mod 4\<rparr>"
    unfolding q2_def q1_def using assms(1) by (rule decomposeContainer_nonneg)
  have c4: "containerId < 4 * 393216" using assms(2) by (simp add: CONTAINERS_PER_LAYER_def)
  have q1n: "0 \<le> q1" unfolding q1_def using assms(1) by simp
  have q1b: "q1 < 393216" unfolding q1_def using c4 by linarith
  have q2n: "0 \<le> q2" unfolding q2_def using q1n by simp
  have "q1 < 256 * 1536" using q1b by simp
  then have q2b: "q2 < 1536" unfolding q2_def by linarith
  have fn: "0 \<le> q2 div 256" using q2n by simp
  have "q2 < 256 * 6" using q2b by simp
  then have fb: "q2 div 256 < 6" by linarith
  show ?thesis
    using fn fb by (simp add: d)
qed

section \<open>Transaction executor: proofs\<close>

lemma destroyBlock_sim_throws:
  "simulate_outcome e = Some msg \<Longrightarrow>
     destroyBlock e w = (destroyBlock_simCatch msg, w\<lparr>trace := trace w @ [SimulateContract]\<rparr>)"
  by (simp add: destroyBlock_def)

lemma destroyBlock_write_throws:
  "simulate_outcome e = None \<Longrightarrow> write_outcome e = Inl msg \<Longrightarrow>
     destroyBlock e w =
       (destroyBlock_catch msg, w\<lparr>trace := trace w @ [SimulateContract, WriteContract]\<rparr>)"
  by (simp add: destroyBlock_def)

lemma destroyBlock_wait_throws:
  "simulate_outcome e = None \<Longrightarrow> write_outcome e = Inr h \<Longrightarrow> receipt_outcome e = Inl msg \<Longrightarrow>
     destroyBlock e w =
       (destroyBlock_catch msg,
        w\<lparr>trace := trace w @ [SimulateContract, WriteContract, WaitForTransactionReceipt]\<rparr>)"
  by (simp add: destroyBlock_def)

lemma destroyBlock_simCatch_fails:
  "\<not> success (destroyBlock_simCatch msg) \<and> error (destroyBlock_simCatch msg) \<noteq> None"
  by (simp add: destroyBlock_simCatch_def Let_def)

lemma destroyBlock_catch_fails:
  "\<not> success (destroyBlock_catch msg) \<and> error (destroyBlock_catch msg) \<noteq> None"
  by (simp add: destroyBlock_catch_def Let_def split: option.splits)

text \<open>The result of \<open>destroyBlock\<close> and the calls it makes do not depend on the world.\<close>

lemma destroyBlock_result_indep: "fst (destroyBlock e w) = fst (destroyBlock e w')"
  by (simp add: destroyBlock_def Let_def split: option.splits sum.splits)

text \<open>
  Claim C3. When the dry run throws, \<open>destroyBlock\<close> returns the failure result its
  simulation handler gives for the message, the only call it has made is the simulation,
  and the number of submissions in the trace is what it was.
\<close>

theorem simulation_failure_never_submits:
  assumes "simulate_outcome e = Some msg"
  shows "fst (destroyBlock e w) = destroyBlock_simCatch msg \<and>
         \<not> success (fst (destroyBlock e w)) \<and>
         error (fst (destroyBlock e w)) \<noteq> None \<and>
         trace (snd (destroyBlock e w)) = trace w @ [SimulateContract] \<and>
         submissions (trace (snd (destroyBlock e w))) = submissions (trace w)"
proof -
  have eq: "destroyBlock e w =
      (destroyBlock_simCatch msg, w\<lparr>trace := trace w @ [SimulateContract]\<rparr>)"
    using assms by (rule destroyBlock_sim_throws)
  show ?thesis
    using destroyBlock_simCatch_fails [of msg] by (simp add: eq submissions_def)
qed

text \<open>
  Scenario B: the simulation throws "execution reverted: Already destroyed"; the outcome
  is the already-processed one and nothing is submitted.
\<close>

theorem simulation_failure_never_submits_witness:
  "fst (destroyBlock (env_ok\<lparr>simulate_outcome := Some ''execution reverted: Already destroyed''\<rparr>) world0)
     = \<lparr>success = False, txHash = None, error = Some ''Already destroyed'',
        alreadyDestroyed = Some True\<rparr> \<and>
   trace (snd (destroyBlock
     (env_ok\<lparr>simulate_outcome := Some ''execution reverted: Already destroyed''\<rparr>) world0))
     = [SimulateContract] \<and>
   submissions (trace (snd (destroyBlock
     (env_ok\<lparr>simulate_outcome := Some ''execution reverted: Already destroyed''\<rparr>) world0))) = 0"
proof -
  let ?e = "env_ok\<lparr>simulate_outcome := Some ''execution reverted: Already destroyed''\<rparr>"
  have h: "simulate_outcome ?e = Some ''execution reverted: Already destroyed''" by simp
  have c: "destroyBlock_simCatch ''execution reverted: Already destroyed'' =
      \<lparr>success = False, txHash = None, error = Some ''Already destroyed'',
       alreadyDestroyed = Some True\<rparr>"
    by (simp add: destroyBlock_simCatch_def toLowerCase_def toLowerChar_def)
  have t: "trace world0 = []" by (simp add: world0_def)
  have s: "submissions (trace world0) = 0" by (simp add: world0_def submissions_def)
  from simulation_failure_never_submits [OF h, of world0] c t s show ?thesis
    by (simp add: submissions_def)
qed

text \<open>
  Claim C1, as stated, fails: the two phases do not share one table. A message with
  "tile already" is an already-processed outcome when the submission throws it and an
  unclassified simulation error when the dry run throws it.
\<close>

theorem shared_table_counterexample:
  "fst (destroyBlock (env_ok\<lparr>simulate_outcome := Some ''Tile already gone''\<rparr>) world0) =
     \<lparr>success = False, txHash = None, error = Some ''Sim: Tile already gone'',
      alreadyDestroyed = None\<rparr> \<and>
   fst (destroyBlock (env_ok\<lparr>write_outcome := Inl ''Tile already gone''\<rparr>) world0) =
     \<lparr>success = False, txHash = None, error = Some ''Already destroyed'',
      alreadyDestroyed = Some True\<rparr>"
proof -
  have a: "destroyBlock_simCatch ''Tile already gone'' =
      \<lparr>success = False, txHash = None, error = Some ''Sim: Tile already gone'',
       alreadyDestroyed = None\<rparr>"
    by (simp add: destroyBlock_simCatch_def toLowerCase_def toLowerChar_def)
  have b: "destroyBlock_catch ''Tile already gone'' =
      \<lparr>success = False, txHash = None, error = Some ''Already destroyed'',
       alreadyDestroyed = Some True\<rparr>"
    by (simp add: destroyBlock_catch_def toLowerCase_def toLowerChar_def)
  have c: "simulate_outcome env_ok = None" by (simp add: env_ok_def)
  show ?thesis
    by (simp add: destroyBlock_sim_throws destroyBlock_write_throws c a b)
qed

text \<open>
  Claim C1, amended. Each phase classifies by a table of its own, read in order on the
  lowercased message, first match winning: \<open>simulationTable\<close> with \<open>simulationDefault\<close> when
  the dry run throws, \<open>submissionTable\<close> with \<open>submissionDefault\<close> (the regular expression,
  then the whole message) when the submission or the wait for the receipt throws. The
  two agree on every message that contains "already destroyed".
\<close>

theorem classification_per_phase:
  "destroyBlock_simCatch m =
     (case firstMatch simulationTable (toLowerCase m) of
        Some r \<Rightarrow> r
      | None \<Rightarrow> simulationDefault m) \<and>
   destroyBlock_catch m =
     (case firstMatch submissionTable (toLowerCase m) of
        Some r \<Rightarrow> r
      | None \<Rightarrow> submissionDefault m) \<and>
   (simulate_outcome e = Some m \<longrightarrow> fst (destroyBlock e w) = destroyBlock_simCatch m) \<and>
   (simulate_outcome e = None \<and> write_outcome e = Inl m \<longrightarrow>
      fst (destroyBlock e w) = destroyBlock_catch m) \<and>
   (simulate_outcome e = None \<and> write_outcome e = Inr h \<and> receipt_outcome e = Inl m \<longrightarrow>
      fst (destroyBlock e w) = destroyBlock_catch m) \<and>
   (str_includes (toLowerCase m) ''already destroyed'' \<longrightarrow>
      destroyBlock_simCatch m = destroyBlock_catch m)"
proof (intro conjI impI)
  show "destroyBlock_simCatch m =
     (case firstMatch simulationTable (toLowerCase m) of
        Some r \<Rightarrow> r
      | None \<Rightarrow> simulationDefault m)"
    by (simp add: destroyBlock_simCatch_def simulationTable_def simulationDefault_def
        failed_def alreadyProcessed_def Let_def)
  show "destroyBlock_catch m =
     (case firstMatch submissionTable (toLowerCase m) of
        Some r \<Rightarrow> r
      | None \<Rightarrow> submissionDefault m)"
    by (simp add: destroyBlock_catch_def submissionTable_def submissionDefault_def
        failed_def alreadyProcessed_def Let_def split: option.splits)
  show "fst (destroyBlock e w) = destroyBlock_simCatch m" if "simulate_outcome e = Some m"
    using that by (simp add: destroyBlock_sim_throws)
  show "fst (destroyBlock e w) = destroyBlock_catch m"
    if "simulate_outcome e = None \<and> write_outcome e = Inl m"
    using that by (simp add: destroyBlock_write_throws)
  show "fst (destroyBlock e w) = destroyBlock_catch m"
    if "simulate_outcome e = None \<and> write_outcome e = Inr h \<and> receipt_outcome e = Inl m"
    using that by (simp add: destroyBlock_wait_throws)
  show "destroyBlock_simCatch m = destroyBlock_catch m"
    if "str_includes (toLowerCase m) ''already destroyed''"
    using that by (simp add: destroyBlock_simCatch_def destroyBlock_catch_def Let_def)
qed

text \<open>
  A message with both "already destroyed" and "capability expired": the first row wins
  in both phases.
\<close>

theorem classification_per_phase_witness:
  "fst (destroyBlock
     (env_ok\<lparr>simulate_outcome := Some ''Capability expired; block Already Destroyed''\<rparr>) world0)
     = \<lparr>success = False, txHash = None, error = Some ''Already destroyed'',
        alreadyDestroyed = Some True\<rparr> \<and>
   fst (destroyBlock
     (env_ok\<lparr>write_outcome := Inl ''Capability expired; block Already Destroyed''\<rparr>) world0)
     = \<lparr>success = False, txHash = None, error = Some ''Already destroyed'',
        alreadyDestroyed = Some True\<rparr>"
proof -
  let ?m = "''Capability expired; block Already Destroyed''"
  let ?e1 = "env_ok\<lparr>simulate_outcome := Some ?m\<rparr>"
  let ?e2 = "env_ok\<lparr>write_outcome := Inl ?m\<rparr>"
  have lo: "toLowerCase ?m = ''capability expired; block already destroyed''"
    by (simp add: toLowerCase_def toLowerChar_def)
  have inc: "str_includes (toLowerCase ?m) ''already destroyed''"
    by (simp add: lo)
  have fm: "firstMatch simulationTable (toLowerCase ?m) = Some (alreadyProcessed ''Already destroyed'')"
    by (simp add: lo simulationTable_def)
  have h1: "simulate_outcome ?e1 = Some ?m" by simp
  have h2: "simulate_outcome ?e2 = None \<and> write_outcome ?e2 = Inl ?m" by (simp add: env_ok_def)
  note T1 = classification_per_phase [of ?m ?e1 world0 "''0xhash''"]
  note T2 = classification_per_phase [of ?m ?e2 world0 "''0xhash''"]
  from T1 fm have s: "destroyBlock_simCatch ?m = alreadyProcessed ''Already destroyed''"
    by simp
  from T1 h1 have d1: "fst (destroyBlock ?e1 world0) = destroyBlock_simCatch ?m" by blast
  from T2 h2 have d2: "fst (destroyBlock ?e2 world0) = destroyBlock_catch ?m" by blast
  from T1 inc have ag: "destroyBlock_simCatch ?m = destroyBlock_catch ?m" by blast
  from s d1 d2 ag show ?thesis by (simp add: alreadyProcessed_def)
qed

section \<open>Mining iteration: frame lemmas\<close>

text \<open>
  What each part of an iteration leaves alone. \<open>noisy ev\<close> marks the events of the
  bookkeeping around the branches (the balance reads, the stats callback, the state
  file); the counts below are of events that are not of these.
\<close>

lemma count_emit:
  "count_list (trace (emit ev w)) x = count_list (trace w) x + (if ev = x then 1 else 0)"
  by (simp add: emit_def)

lemma cache_emit: "capabilityCache (emit ev w) = capabilityCache w"
  by (simp add: emit_def)

lemma trace_clear: "trace (clearCapabilityCache w) = trace w"
  by (simp add: clearCapabilityCache_def)

lemma cache_clear: "capabilityCache (clearCapabilityCache w) = None"
  by (simp add: clearCapabilityCache_def)

lemma pick_frame:
  "stats (fst (mineOnce_pick e s)) = stats (fst s)"
  "running (fst (mineOnce_pick e s)) = running (fst s)"
  "currentBattery (fst (mineOnce_pick e s)) = currentBattery (fst s)"
  "lastError (fst (mineOnce_pick e s)) = lastError (fst s)"
  "snd (mineOnce_pick e s) = snd s"
  by (simp_all add: mineOnce_pick_def Let_def)

lemma advance_frame:
  "stats (fst (mineOnce_advance s)) = stats (fst s)"
  "running (fst (mineOnce_advance s)) = running (fst s)"
  "currentBattery (fst (mineOnce_advance s)) = currentBattery (fst s)"
  "lastError (fst (mineOnce_advance s)) = lastError (fst s)"
  "snd (mineOnce_advance s) = snd s"
  by (simp_all add: mineOnce_advance_def Let_def)

lemma balances_frame:
  "stats (fst (updateBalances e s)) = stats (fst s)"
  "running (fst (updateBalances e s)) = running (fst s)"
  "currentBattery (fst (updateBalances e s)) = currentBattery (fst s)"
  "lastError (fst (updateBalances e s)) = lastError (fst s)"
  "capabilityCache (snd (updateBalances e s)) = capabilityCache (snd s)"
  by (simp_all add: updateBalances_def Let_def cache_emit split: sum.splits)

lemma balances_count:
  assumes "x \<noteq> GetBalance" and "x \<noteq> GetUnprocessedCubeBalance" and "x \<noteq> GetCubeBalance"
  shows "count_list (trace (snd (updateBalances e s))) x = count_list (trace (snd s)) x"
  using assms by (simp add: updateBalances_def Let_def count_emit split: sum.splits)

lemma mineOnce_frame:
  "stats (fst (mineOnce e s)) = stats (fst (mineOnce_try e (mineOnce_pick e s)))"
  "running (fst (mineOnce e s)) = running (fst (mineOnce_try e (mineOnce_pick e s)))"
  "currentBattery (fst (mineOnce e s)) = currentBattery (fst (mineOnce_try e (mineOnce_pick e s)))"
  "lastError (fst (mineOnce e s)) = lastError (fst (mineOnce_try e (mineOnce_pick e s)))"
  "capabilityCache (snd (mineOnce e s)) =
     capabilityCache (snd (mineOnce_try e (mineOnce_pick e s)))"
  by (simp_all add: mineOnce_def Let_def balances_frame advance_frame cache_emit)

lemma mineOnce_count:
  assumes "x \<noteq> GetBalance" and "x \<noteq> GetUnprocessedCubeBalance" and "x \<noteq> GetCubeBalance"
    and "\<And>st. x \<noteq> OnStats st"
  shows "count_list (trace (snd (mineOnce e s))) x =
         count_list (trace (snd (mineOnce_try e (mineOnce_pick e s)))) x"
  using assms by (auto simp: mineOnce_def Let_def count_emit balances_count advance_frame)

lemma loopBody_frame:
  "fst (loopBody e s) = fst (mineOnce e s)"
  "capabilityCache (snd (loopBody e s)) = capabilityCache (snd (mineOnce e s))"
  by (simp_all add: loopBody_def Let_def cache_emit)

lemma loopBody_count:
  assumes "\<And>st. x \<noteq> SaveRuntimeState st"
  shows "count_list (trace (snd (loopBody e s))) x = count_list (trace (snd (mineOnce e s))) x"
  using assms by (auto simp: loopBody_def Let_def count_emit)

text \<open>The steps between the start of the \<^verbatim>\<open>try\<close> block and the branch on the result.\<close>

lemma getCapability_count:
  assumes "x \<noteq> FetchCapability"
  shows "count_list (trace (snd (getCapability e c w))) x = count_list (trace w) x"
  using assms by (simp add: getCapability_trace)

lemma getCapability_throws_cache:
  assumes "fst (getCapability e c w) = Inl msg"
  shows "capabilityCache (snd (getCapability e c w)) = capabilityCache w"
proof (cases "isCacheValid (now_isCacheValid e) c w")
  case True
  then show ?thesis
    using assms by (auto simp: getCapability_def isCacheValid_iff)
next
  case False
  then show ?thesis
    using assms by (cases "fetch_outcome e") (simp_all add: getCapability_miss)
qed

lemma noteRefresh_frame:
  "errors (stats (fst (noteRefresh b cap s))) = errors (stats (fst s))"
  "blocksDestroyed (stats (fst (noteRefresh b cap s))) = blocksDestroyed (stats (fst s))"
  "running (fst (noteRefresh b cap s)) = running (fst s)"
  "currentBattery (fst (noteRefresh b cap s)) = currentBattery (fst s)"
  "lastError (fst (noteRefresh b cap s)) = lastError (fst s)"
  "capabilityCache (snd (noteRefresh b cap s)) = capabilityCache (snd s)"
  by (simp_all add: noteRefresh_def cache_emit)

lemma noteRefresh_count:
  assumes "\<And>n. x \<noteq> OnCapabilityRefresh n"
  shows "count_list (trace (snd (noteRefresh b cap s))) x = count_list (trace (snd s)) x"
  using assms by (auto simp: noteRefresh_def count_emit)

lemma destroyBlock_count:
  assumes "x \<noteq> SimulateContract" and "x \<noteq> WriteContract" and "x \<noteq> WaitForTransactionReceipt"
  shows "count_list (trace (snd (destroyBlock e w))) x = count_list (trace w) x"
  using assms by (simp add: destroyBlock_def Let_def split: option.splits sum.splits)

lemma destroyBlock_cache:
  "capabilityCache (snd (destroyBlock e w)) = capabilityCache w"
  by (simp add: destroyBlock_def Let_def split: option.splits sum.splits)

text \<open>The two ways through the \<^verbatim>\<open>try\<close> block.\<close>

lemma mineOnce_try_throws:
  assumes "fst (getCapability e 1 (snd s)) = Inl msg"
  shows "mineOnce_try e s = mineOnce_catch msg (fst s, snd (getCapability e 1 (snd s)))"
  using assms by (simp add: mineOnce_try_def Let_def)

lemma mineOnce_try_acquired:
  assumes "fst (getCapability e 1 (snd s)) = Inr cap"
  shows "mineOnce_try e s =
     mineOnce_result e (fst (destroyBlock e (snd s)))
       (fst (noteRefresh (needsCapabilityRefresh (now_needsRefresh e) 1 (snd s)) cap
               (fst s, snd (getCapability e 1 (snd s)))),
        snd (destroyBlock e
               (snd (noteRefresh (needsCapabilityRefresh (now_needsRefresh e) 1 (snd s)) cap
                       (fst s, snd (getCapability e 1 (snd s)))))))"
proof -
  let ?s1 = "noteRefresh (needsCapabilityRefresh (now_needsRefresh e) 1 (snd s)) cap
               (fst s, snd (getCapability e 1 (snd s)))"
  have "mineOnce_try e s =
      mineOnce_result e (fst (destroyBlock e (snd ?s1))) (fst ?s1, snd (destroyBlock e (snd ?s1)))"
    using assms by (simp add: mineOnce_try_def Let_def)
  then show ?thesis
    by (simp only: destroyBlock_result_indep [of e "snd ?s1" "snd s"])
qed

text \<open>The branches on the result, and the \<^verbatim>\<open>catch\<close> block.\<close>

lemma failure_effect:
  "errors (stats (fst (mineOnce_failure r s))) = errors (stats (fst s)) + 1"
  "blocksDestroyed (stats (fst (mineOnce_failure r s))) = blocksDestroyed (stats (fst s))"
  "running (fst (mineOnce_failure r s)) = (running (fst s) \<and> \<not> batteryRelated (lowerErrorOf r))"
  "currentBattery (fst (mineOnce_failure r s)) = currentBattery (fst s)"
  "lastError (fst (mineOnce_failure r s)) = errorOr (error r) ''Unknown error''"
  "capabilityCache (snd (mineOnce_failure r s)) =
     (if capabilityRelated (lowerErrorOf r) then None else capabilityCache (snd s))"
  by (simp_all add: mineOnce_failure_def Let_def cache_emit cache_clear)

lemma failure_count:
  "count_list (trace (snd (mineOnce_failure r s))) x =
     count_list (trace (snd s)) x
     + (if x = OnError (errorOr (error r) ''Unknown error'') then 1 else 0)
     + (if x = OnBatteryDepleted \<and> batteryRelated (lowerErrorOf r) then 1 else 0)"
  by (auto simp: mineOnce_failure_def Let_def count_emit trace_clear)

lemma success_effect:
  "errors (stats (fst (mineOnce_success e r s))) = errors (stats (fst s))"
  "blocksDestroyed (stats (fst (mineOnce_success e r s))) = blocksDestroyed (stats (fst s)) + 1"
  "running (fst (mineOnce_success e r s)) = running (fst s)"
  "lastError (fst (mineOnce_success e r s)) = lastError (fst s)"
  "capabilityCache (snd (mineOnce_success e r s)) = capabilityCache (snd s)"
  by (simp_all add: mineOnce_success_def Let_def cache_emit split: sum.splits)

lemma success_battery:
  "currentBattery (fst (mineOnce_success e r s)) =
     (if (blocksDestroyed (stats (fst s)) + 1) mod 25 = 0 then
        (case license_outcome e of
           Inr status \<Rightarrow> ls_currentBattery status
         | Inl msg \<Rightarrow> (if currentBattery (fst s) > 0 then currentBattery (fst s) - 1
                       else currentBattery (fst s)))
      else (if currentBattery (fst s) > 0 then currentBattery (fst s) - 1
            else currentBattery (fst s)))"
  by (simp add: mineOnce_success_def Let_def split: sum.splits)

lemma success_count:
  "count_list (trace (snd (mineOnce_success e r s))) x =
     count_list (trace (snd s)) x
     + (if x = OnBlockDestroyed (currentContainer (fst s)) (currentBlock (fst s)) (txHash r)
        then 1 else 0)
     + (if x = GetLicenseStatus \<and> (blocksDestroyed (stats (fst s)) + 1) mod 25 = 0
        then 1 else 0)"
  by (auto simp: mineOnce_success_def Let_def count_emit split: sum.splits)

lemma already_effect:
  "errors (stats (fst (mineOnce_already s))) = errors (stats (fst s))"
  "blocksDestroyed (stats (fst (mineOnce_already s))) = blocksDestroyed (stats (fst s))"
  "running (fst (mineOnce_already s)) = running (fst s)"
  "currentBattery (fst (mineOnce_already s)) = currentBattery (fst s)"
  "lastError (fst (mineOnce_already s)) = lastError (fst s)"
  "capabilityCache (snd (mineOnce_already s)) = capabilityCache (snd s)"
  by (simp_all add: mineOnce_already_def Let_def cache_emit)

lemma already_count:
  "count_list (trace (snd (mineOnce_already s))) x =
     count_list (trace (snd s)) x
     + (if x = OnBlockAlreadyDestroyed (currentContainer (fst s)) (currentBlock (fst s))
        then 1 else 0)"
  by (auto simp: mineOnce_already_def Let_def count_emit)

lemma catch_effect:
  "errors (stats (fst (mineOnce_catch msg s))) = errors (stats (fst s)) + 1"
  "blocksDestroyed (stats (fst (mineOnce_catch msg s))) = blocksDestroyed (stats (fst s))"
  "running (fst (mineOnce_catch msg s)) = running (fst s)"
  "currentBattery (fst (mineOnce_catch msg s)) = currentBattery (fst s)"
  "lastError (fst (mineOnce_catch msg s)) = msg"
  "capabilityCache (snd (mineOnce_catch msg s)) =
     (if capabilityRelated (toLowerCase msg) then None else capabilityCache (snd s))"
  by (simp_all add: mineOnce_catch_def Let_def cache_emit cache_clear)

lemma catch_count:
  "count_list (trace (snd (mineOnce_catch msg s))) x =
     count_list (trace (snd s)) x + (if x = OnError msg then 1 else 0)"
  by (auto simp: mineOnce_catch_def Let_def count_emit trace_clear)

text \<open>
  The state handed to the branch on the result, when the capability was acquired: its
  counters, flags and battery are those at the start of the iteration, and so are the
  counts of the events that only the branches emit.
\<close>

lemma branchInput_frame:
  "errors (stats (fst (branchInput e cap s))) = errors (stats (fst s))"
  "blocksDestroyed (stats (fst (branchInput e cap s))) = blocksDestroyed (stats (fst s))"
  "running (fst (branchInput e cap s)) = running (fst s)"
  "currentBattery (fst (branchInput e cap s)) = currentBattery (fst s)"
  "lastError (fst (branchInput e cap s)) = lastError (fst s)"
  by (simp_all add: branchInput_def noteRefresh_frame pick_frame)

lemma branchInput_count:
  assumes "x \<noteq> FetchCapability" and "\<And>n. x \<noteq> OnCapabilityRefresh n"
    and "x \<noteq> SimulateContract" and "x \<noteq> WriteContract" and "x \<noteq> WaitForTransactionReceipt"
  shows "count_list (trace (snd (branchInput e cap s))) x = count_list (trace (snd s)) x"
  using assms
  by (simp add: branchInput_def destroyBlock_count noteRefresh_count getCapability_count)

lemma mineOnce_acquired:
  assumes "fst (getCapability e 1 (snd s)) = Inr cap"
  shows "mineOnce_try e (mineOnce_pick e s) =
           mineOnce_result e (fst (destroyBlock e (snd s))) (branchInput e cap s)"
proof -
  have "fst (getCapability e 1 (snd (mineOnce_pick e s))) = Inr cap"
    using assms by (simp add: pick_frame)
  from mineOnce_try_acquired [OF this] show ?thesis
    by (simp add: branchInput_def pick_frame)
qed

lemma mineOnce_thrown:
  assumes "fst (getCapability e 1 (snd s)) = Inl msg"
  shows "mineOnce_try e (mineOnce_pick e s) =
           mineOnce_catch msg (fst (mineOnce_pick e s), snd (getCapability e 1 (snd s)))"
proof -
  have "fst (getCapability e 1 (snd (mineOnce_pick e s))) = Inl msg"
    using assms by (simp add: pick_frame)
  from mineOnce_try_throws [OF this] show ?thesis
    by (simp add: pick_frame)
qed

text \<open>One iteration, by the way it goes.\<close>

lemma mineOnce_when_thrown:
  assumes "fst (getCapability e 1 (snd s)) = Inl msg"
  shows "errors (stats (fst (mineOnce e s))) = errors (stats (fst s)) + 1"
    and "blocksDestroyed (stats (fst (mineOnce e s))) = blocksDestroyed (stats (fst s))"
    and "running (fst (mineOnce e s)) = running (fst s)"
    and "currentBattery (fst (mineOnce e s)) = currentBattery (fst s)"
    and "lastError (fst (mineOnce e s)) = msg"
    and "capabilityCache (snd (mineOnce e s)) =
           (if capabilityRelated (toLowerCase msg) then None else capabilityCache (snd s))"
  using assms
  by (simp_all add: mineOnce_frame mineOnce_thrown catch_effect pick_frame
      getCapability_throws_cache)

lemma mineOnce_when_thrown_count:
  assumes "fst (getCapability e 1 (snd s)) = Inl msg"
    and "x \<noteq> GetBalance" and "x \<noteq> GetUnprocessedCubeBalance" and "x \<noteq> GetCubeBalance"
    and "\<And>st. x \<noteq> OnStats st" and "x \<noteq> FetchCapability"
  shows "count_list (trace (snd (mineOnce e s))) x =
           count_list (trace (snd s)) x + (if x = OnError msg then 1 else 0)"
  using assms
  by (simp add: mineOnce_count mineOnce_thrown catch_count getCapability_count)

lemma mineOnce_when_failed:
  assumes "fst (getCapability e 1 (snd s)) = Inr cap"
    and "\<not> success (fst (destroyBlock e (snd s)))"
    and "alreadyDestroyed (fst (destroyBlock e (snd s))) \<noteq> Some True"
  shows "errors (stats (fst (mineOnce e s))) = errors (stats (fst s)) + 1"
    and "blocksDestroyed (stats (fst (mineOnce e s))) = blocksDestroyed (stats (fst s))"
    and "running (fst (mineOnce e s)) =
           (running (fst s) \<and> \<not> batteryRelated (lowerErrorOf (fst (destroyBlock e (snd s)))))"
    and "currentBattery (fst (mineOnce e s)) = currentBattery (fst s)"
  using assms
  by (simp_all add: mineOnce_frame mineOnce_acquired mineOnce_result_def failure_effect
      branchInput_frame)

lemma mineOnce_when_failed_count:
  assumes "fst (getCapability e 1 (snd s)) = Inr cap"
    and "\<not> success (fst (destroyBlock e (snd s)))"
    and "alreadyDestroyed (fst (destroyBlock e (snd s))) \<noteq> Some True"
  shows "count_list (trace (snd (mineOnce e s))) OnBatteryDepleted =
           count_list (trace (snd s)) OnBatteryDepleted
           + (if batteryRelated (lowerErrorOf (fst (destroyBlock e (snd s)))) then 1 else 0)"
    and "count_list (trace (snd (mineOnce e s))) GetLicenseStatus =
           count_list (trace (snd s)) GetLicenseStatus"
  using assms
  by (simp_all add: mineOnce_count mineOnce_acquired mineOnce_result_def failure_count
      branchInput_count)

lemma mineOnce_when_already:
  assumes "fst (getCapability e 1 (snd s)) = Inr cap"
    and "\<not> success (fst (destroyBlock e (snd s)))"
    and "alreadyDestroyed (fst (destroyBlock e (snd s))) = Some True"
  shows "errors (stats (fst (mineOnce e s))) = errors (stats (fst s))"
    and "blocksDestroyed (stats (fst (mineOnce e s))) = blocksDestroyed (stats (fst s))"
    and "running (fst (mineOnce e s)) = running (fst s)"
    and "currentBattery (fst (mineOnce e s)) = currentBattery (fst s)"
    and "count_list (trace (snd (mineOnce e s))) GetLicenseStatus =
           count_list (trace (snd s)) GetLicenseStatus"
    and "count_list (trace (snd (mineOnce e s))) OnBatteryDepleted =
           count_list (trace (snd s)) OnBatteryDepleted"
  using assms
  by (simp_all add: mineOnce_frame mineOnce_count mineOnce_acquired mineOnce_result_def
      already_effect already_count branchInput_frame branchInput_count)

lemma mineOnce_when_succeeded:
  assumes "fst (getCapability e 1 (snd s)) = Inr cap"
    and "success (fst (destroyBlock e (snd s)))"
  shows "errors (stats (fst (mineOnce e s))) = errors (stats (fst s))"
    and "blocksDestroyed (stats (fst (mineOnce e s))) = blocksDestroyed (stats (fst s)) + 1"
    and "running (fst (mineOnce e s)) = running (fst s)"
    and "lastError (fst (mineOnce e s)) = lastError (fst s)"
    and "currentBattery (fst (mineOnce e s)) =
     (if (blocksDestroyed (stats (fst s)) + 1) mod 25 = 0 then
        (case license_outcome e of
           Inr status \<Rightarrow> ls_currentBattery status
         | Inl msg \<Rightarrow> (if currentBattery (fst s) > 0 then currentBattery (fst s) - 1
                       else currentBattery (fst s)))
      else (if currentBattery (fst s) > 0 then currentBattery (fst s) - 1
            else currentBattery (fst s)))"
    and "count_list (trace (snd (mineOnce e s))) GetLicenseStatus =
           count_list (trace (snd s)) GetLicenseStatus
           + (if (blocksDestroyed (stats (fst s)) + 1) mod 25 = 0 then 1 else 0)"
    and "count_list (trace (snd (mineOnce e s))) OnBatteryDepleted =
           count_list (trace (snd s)) OnBatteryDepleted"
  using assms
  by (simp_all add: mineOnce_frame mineOnce_count mineOnce_acquired mineOnce_result_def
      success_effect success_battery success_count branchInput_frame branchInput_count
      split: sum.splits)

lemma iterationSucceeds_iff:
  "iterationSucceeds e s \<longleftrightarrow>
     (\<exists>cap. fst (getCapability e 1 (snd s)) = Inr cap) \<and> success (fst (destroyBlock e (snd s)))"
  by (simp add: iterationSucceeds_def split: sum.splits)

lemma mineOnce_no_success:
  assumes "\<not> iterationSucceeds e s"
  shows "currentBattery (fst (mineOnce e s)) = currentBattery (fst s)"
    and "blocksDestroyed (stats (fst (mineOnce e s))) = blocksDestroyed (stats (fst s))"
    and "resyncs (trace (snd (mineOnce e s))) = resyncs (trace (snd s))"
proof -
  show "currentBattery (fst (mineOnce e s)) = currentBattery (fst s)"
  proof (cases "fst (getCapability e 1 (snd s))")
    case (Inl msg)
    then show ?thesis by (simp add: mineOnce_when_thrown)
  next
    case (Inr cap)
    with assms have ns: "\<not> success (fst (destroyBlock e (snd s)))"
      by (simp add: iterationSucceeds_iff)
    show ?thesis
      by (cases "alreadyDestroyed (fst (destroyBlock e (snd s))) = Some True")
        (simp_all add: mineOnce_when_already [OF Inr ns] mineOnce_when_failed [OF Inr ns])
  qed
  show "blocksDestroyed (stats (fst (mineOnce e s))) = blocksDestroyed (stats (fst s))"
  proof (cases "fst (getCapability e 1 (snd s))")
    case (Inl msg)
    then show ?thesis by (simp add: mineOnce_when_thrown)
  next
    case (Inr cap)
    with assms have ns: "\<not> success (fst (destroyBlock e (snd s)))"
      by (simp add: iterationSucceeds_iff)
    show ?thesis
      by (cases "alreadyDestroyed (fst (destroyBlock e (snd s))) = Some True")
        (simp_all add: mineOnce_when_already [OF Inr ns] mineOnce_when_failed [OF Inr ns])
  qed
  show "resyncs (trace (snd (mineOnce e s))) = resyncs (trace (snd s))"
  proof (cases "fst (getCapability e 1 (snd s))")
    case (Inl msg)
    then show ?thesis by (simp add: resyncs_def mineOnce_when_thrown_count)
  next
    case (Inr cap)
    with assms have ns: "\<not> success (fst (destroyBlock e (snd s)))"
      by (simp add: iterationSucceeds_iff)
    show ?thesis
      by (cases "alreadyDestroyed (fst (destroyBlock e (snd s))) = Some True")
        (simp_all add: resyncs_def mineOnce_when_already [OF Inr ns]
          mineOnce_when_failed_count [OF Inr ns])
  qed
qed




section \<open>Mining loop: the claims\<close>



text \<open>A step of a run of successes, and the run.\<close>

lemma loopBody_success_step:
  assumes "iterationSucceeds e s"
  shows "blocksDestroyed (stats (fst (loopBody e s))) = blocksDestroyed (stats (fst s)) + 1"
    and "resyncs (trace (snd (loopBody e s))) =
           resyncs (trace (snd s))
           + (if (blocksDestroyed (stats (fst s)) + 1) mod 25 = 0 then 1 else 0)"
proof -
  from assms obtain cap where acq: "fst (getCapability e 1 (snd s)) = Inr cap"
    and ok: "success (fst (destroyBlock e (snd s)))"
    by (auto simp: iterationSucceeds_iff)
  note eff = mineOnce_when_succeeded [OF acq ok]
  show "blocksDestroyed (stats (fst (loopBody e s))) = blocksDestroyed (stats (fst s)) + 1"
    by (simp add: loopBody_frame eff(2))
  show "resyncs (trace (snd (loopBody e s))) =
           resyncs (trace (snd s))
           + (if (blocksDestroyed (stats (fst s)) + 1) mod 25 = 0 then 1 else 0)"
    by (simp add: resyncs_def loopBody_count eff(6))
qed

lemma div25_step:
  "(b + 1) div 25 = b div 25 + (if (b + 1) mod 25 = 0 then 1 else 0)" for b :: nat
proof -
  have "Suc b div 25 = (if Suc b mod 25 = 0 then Suc (b div 25) else b div 25)"
    by (rule div_Suc)
  then show ?thesis by simp
qed

lemma mineRun_successes:
  "allSucceed es s \<Longrightarrow>
     blocksDestroyed (stats (fst (mineRun es s))) = blocksDestroyed (stats (fst s)) + length es \<and>
     resyncs (trace (snd (mineRun es s))) + blocksDestroyed (stats (fst s)) div 25 =
       resyncs (trace (snd s)) + (blocksDestroyed (stats (fst s)) + length es) div 25"
proof (induction es arbitrary: s)
  case Nil
  then show ?case by simp
next
  case (Cons e es)
  from Cons.prems have ok: "iterationSucceeds e s" and rest: "allSucceed es (loopBody e s)"
    by simp_all
  note step = loopBody_success_step [OF ok]
  note ih = Cons.IH [OF rest]
  let ?b = "blocksDestroyed (stats (fst s))"
  have d: "(?b + 1) div 25 = ?b div 25 + (if (?b + 1) mod 25 = 0 then 1 else 0)"
    by (rule div25_step)
  from ih have n: "blocksDestroyed (stats (fst (mineRun (e # es) s))) = ?b + length (e # es)"
    by (simp add: step(1))
  from ih have "resyncs (trace (snd (mineRun (e # es) s))) + (?b + 1) div 25 =
      resyncs (trace (snd (loopBody e s))) + (?b + 1 + length es) div 25"
    by (simp add: step(1))
  then have "resyncs (trace (snd (mineRun (e # es) s))) + ?b div 25 =
      resyncs (trace (snd s)) + (?b + length (e # es)) div 25"
    unfolding d step(2) by (simp split: if_splits)
  with n show ?case by blast
qed

text \<open>An environment in which every call succeeds gives a success in any state.\<close>

lemma callsSucceed_iteration: "callsSucceed e \<Longrightarrow> iterationSucceeds e s"
  by (auto simp: callsSucceed_def iterationSucceeds_iff getCapability_Inr_iff destroyBlock_def
      split: sum.splits)

lemma callsSucceed_run: "list_all callsSucceed es \<Longrightarrow> allSucceed es s"
  by (induction es arbitrary: s) (simp_all add: callsSucceed_iteration)

text \<open>
  A run of successes is what the loop executes: the flag stays set throughout, and the
  loop continues from the state \<open>mineRun\<close> gives.
\<close>

lemma miningLoop_run_of_successes:
  "allSucceed es s \<Longrightarrow> running (fst s) \<Longrightarrow>
     running (fst (mineRun es s)) \<and>
     miningLoop (es @ es') s =
       (case miningLoop es' (mineRun es s) of
          None \<Rightarrow> None
        | Some (s', n) \<Rightarrow> Some (s', n + length es))"
proof (induction es arbitrary: s)
  case Nil
  then show ?case by (simp split: option.splits)
next
  case (Cons e es)
  from Cons.prems(1) have ok: "iterationSucceeds e s" and rest: "allSucceed es (loopBody e s)"
    by simp_all
  from ok obtain cap where acq: "fst (getCapability e 1 (snd s)) = Inr cap"
    and su: "success (fst (destroyBlock e (snd s)))"
    by (auto simp: iterationSucceeds_iff)
  have r: "running (fst (loopBody e s))"
    using Cons.prems(2) by (simp add: loopBody_frame mineOnce_when_succeeded(3) [OF acq su])
  from Cons.IH [OF rest r] Cons.prems(2) show ?case
    by (simp split: option.splits)
qed

text \<open>What a resync whose read succeeds writes.\<close>

lemma mineOnce_resync_sets:
  assumes "fst (getCapability e 1 (snd s)) = Inr cap"
    and "success (fst (destroyBlock e (snd s)))"
    and "(blocksDestroyed (stats (fst s)) + 1) mod 25 = 0"
    and "license_outcome e = Inr status"
  shows "currentBattery (fst (mineOnce e s)) = ls_currentBattery status"
    and "maxBattery (fst (mineOnce e s)) = ls_maxBattery status"
    and "lastBatteryRefresh (fst (mineOnce e s)) = now_batteryRefresh e"
proof -
  have fr: "maxBattery (fst (mineOnce e s)) = maxBattery (fst (mineOnce_try e (mineOnce_pick e s)))"
    "lastBatteryRefresh (fst (mineOnce e s)) =
       lastBatteryRefresh (fst (mineOnce_try e (mineOnce_pick e s)))"
    by (simp_all add: mineOnce_def Let_def updateBalances_def mineOnce_advance_def
        split: sum.splits)
  have br: "mineOnce_try e (mineOnce_pick e s) =
      mineOnce_success e (fst (destroyBlock e (snd s))) (branchInput e cap s)"
    using assms(2) by (simp add: mineOnce_acquired [OF assms(1)] mineOnce_result_def)
  show "currentBattery (fst (mineOnce e s)) = ls_currentBattery status"
    using assms(3,4) by (simp add: mineOnce_when_succeeded(5) [OF assms(1,2)])
  show "maxBattery (fst (mineOnce e s)) = ls_maxBattery status"
    using assms(3,4)
    by (simp add: fr br mineOnce_success_def Let_def branchInput_frame)
  show "lastBatteryRefresh (fst (mineOnce e s)) = now_batteryRefresh e"
    using assms(3,4)
    by (simp add: fr br mineOnce_success_def Let_def branchInput_frame)
qed

text \<open>
  Claim C7. For one iteration: the battery estimate stays at or above 0 when it was and
  a status read from the chain is; it is raised only by a resync that succeeded; a
  successful iteration destroys one block, reads the license status exactly when the new
  count of destroyed blocks is a multiple of 25, and counts no error and keeps the loop
  running whether that read succeeds or throws, the estimate being the decremented one
  (not below 0) when it throws; an iteration that is not a success leaves the estimate
  alone and makes no resync. A resync whose read succeeds sets the estimate, the maximum
  and the time of the refresh to what the chain returned, be it above or below the
  estimate. For a run of successes from a count \<open>b\<close>: after \<open>n\<close> of them
  the count is \<open>b + n\<close> and the number of resyncs made is the number of multiples of 25 in
  \<open>(b, b + n]\<close>.
\<close>

theorem battery_estimate_and_resync:
  "(0 \<le> currentBattery (fst s) \<and>
      (\<forall>st. license_outcome e = Inr st \<longrightarrow> 0 \<le> ls_currentBattery st) \<longrightarrow>
      0 \<le> currentBattery (fst (mineOnce e s))) \<and>
   (currentBattery (fst s) < currentBattery (fst (mineOnce e s)) \<longrightarrow>
      (\<exists>st. license_outcome e = Inr st \<and>
            currentBattery (fst (mineOnce e s)) = ls_currentBattery st) \<and>
      resyncs (trace (snd (mineOnce e s))) = resyncs (trace (snd s)) + 1) \<and>
   (iterationSucceeds e s \<longrightarrow>
      blocksDestroyed (stats (fst (mineOnce e s))) = blocksDestroyed (stats (fst s)) + 1 \<and>
      resyncs (trace (snd (mineOnce e s))) =
        resyncs (trace (snd s))
        + (if blocksDestroyed (stats (fst (mineOnce e s))) mod 25 = 0 then 1 else 0) \<and>
      errors (stats (fst (mineOnce e s))) = errors (stats (fst s)) \<and>
      lastError (fst (mineOnce e s)) = lastError (fst s) \<and>
      running (fst (mineOnce e s)) = running (fst s) \<and>
      ((\<exists>m. license_outcome e = Inl m) \<or>
       blocksDestroyed (stats (fst (mineOnce e s))) mod 25 \<noteq> 0 \<longrightarrow>
         currentBattery (fst (mineOnce e s)) =
           (if currentBattery (fst s) > 0 then currentBattery (fst s) - 1
            else currentBattery (fst s)))) \<and>
   (\<not> iterationSucceeds e s \<longrightarrow>
      currentBattery (fst (mineOnce e s)) = currentBattery (fst s) \<and>
      resyncs (trace (snd (mineOnce e s))) = resyncs (trace (snd s))) \<and>
   (allSucceed es s \<longrightarrow>
      blocksDestroyed (stats (fst (mineRun es s))) =
        blocksDestroyed (stats (fst s)) + length es \<and>
      resyncs (trace (snd (mineRun es s))) + blocksDestroyed (stats (fst s)) div 25 =
        resyncs (trace (snd s)) + (blocksDestroyed (stats (fst s)) + length es) div 25) \<and>
   (iterationSucceeds e s \<and>
    blocksDestroyed (stats (fst (mineOnce e s))) mod 25 = 0 \<and>
    license_outcome e = Inr status \<longrightarrow>
      currentBattery (fst (mineOnce e s)) = ls_currentBattery status \<and>
      maxBattery (fst (mineOnce e s)) = ls_maxBattery status \<and>
      lastBatteryRefresh (fst (mineOnce e s)) = now_batteryRefresh e)"
proof -
  let ?b = "currentBattery (fst s)"
  let ?b' = "currentBattery (fst (mineOnce e s))"
  let ?dec = "if ?b > 0 then ?b - 1 else ?b"
  let ?n' = "blocksDestroyed (stats (fst (mineOnce e s)))"
  have succ: "blocksDestroyed (stats (fst (mineOnce e s))) = blocksDestroyed (stats (fst s)) + 1 \<and>
      resyncs (trace (snd (mineOnce e s))) =
        resyncs (trace (snd s)) + (if ?n' mod 25 = 0 then 1 else 0) \<and>
      errors (stats (fst (mineOnce e s))) = errors (stats (fst s)) \<and>
      lastError (fst (mineOnce e s)) = lastError (fst s) \<and>
      running (fst (mineOnce e s)) = running (fst s) \<and>
      ?b' = (if ?n' mod 25 = 0
             then (case license_outcome e of Inr st \<Rightarrow> ls_currentBattery st | Inl m \<Rightarrow> ?dec)
             else ?dec)"
    if "iterationSucceeds e s"
  proof -
    from that obtain cap where acq: "fst (getCapability e 1 (snd s)) = Inr cap"
      and ok: "success (fst (destroyBlock e (snd s)))"
      by (auto simp: iterationSucceeds_iff)
    note eff = mineOnce_when_succeeded [OF acq ok]
    show ?thesis
      by (simp add: resyncs_def eff)
  qed
  have fail: "?b' = ?b \<and> resyncs (trace (snd (mineOnce e s))) = resyncs (trace (snd s))"
    if "\<not> iterationSucceeds e s"
    using mineOnce_no_success [OF that] by simp
  have part1: "0 \<le> ?b \<and> (\<forall>st. license_outcome e = Inr st \<longrightarrow> 0 \<le> ls_currentBattery st) \<longrightarrow>
      0 \<le> ?b'"
  proof (cases "iterationSucceeds e s")
    case True
    from succ [OF True] show ?thesis
      by (auto split: sum.splits if_splits)
  next
    case False
    from fail [OF False] show ?thesis by simp
  qed
  have part2: "?b < ?b' \<longrightarrow>
      (\<exists>st. license_outcome e = Inr st \<and> ?b' = ls_currentBattery st) \<and>
      resyncs (trace (snd (mineOnce e s))) = resyncs (trace (snd s)) + 1"
  proof (cases "iterationSucceeds e s")
    case True
    from succ [OF True] show ?thesis
      by (auto split: sum.splits if_splits)
  next
    case False
    from fail [OF False] show ?thesis by simp
  qed
  have part3: "iterationSucceeds e s \<longrightarrow>
      blocksDestroyed (stats (fst (mineOnce e s))) = blocksDestroyed (stats (fst s)) + 1 \<and>
      resyncs (trace (snd (mineOnce e s))) =
        resyncs (trace (snd s)) + (if ?n' mod 25 = 0 then 1 else 0) \<and>
      errors (stats (fst (mineOnce e s))) = errors (stats (fst s)) \<and>
      lastError (fst (mineOnce e s)) = lastError (fst s) \<and>
      running (fst (mineOnce e s)) = running (fst s) \<and>
      ((\<exists>m. license_outcome e = Inl m) \<or> ?n' mod 25 \<noteq> 0 \<longrightarrow> ?b' = ?dec)"
  proof (intro impI)
    assume a: "iterationSucceeds e s"
    from succ [OF a] show "blocksDestroyed (stats (fst (mineOnce e s))) = blocksDestroyed (stats (fst s)) + 1 \<and>
      resyncs (trace (snd (mineOnce e s))) =
        resyncs (trace (snd s)) + (if ?n' mod 25 = 0 then 1 else 0) \<and>
      errors (stats (fst (mineOnce e s))) = errors (stats (fst s)) \<and>
      lastError (fst (mineOnce e s)) = lastError (fst s) \<and>
      running (fst (mineOnce e s)) = running (fst s) \<and>
      ((\<exists>m. license_outcome e = Inl m) \<or> ?n' mod 25 \<noteq> 0 \<longrightarrow> ?b' = ?dec)"
      by (auto split: sum.splits if_splits)
  qed
  have part4: "\<not> iterationSucceeds e s \<longrightarrow>
      ?b' = ?b \<and> resyncs (trace (snd (mineOnce e s))) = resyncs (trace (snd s))"
    using fail by blast
  have part5: "allSucceed es s \<longrightarrow>
      blocksDestroyed (stats (fst (mineRun es s))) =
        blocksDestroyed (stats (fst s)) + length es \<and>
      resyncs (trace (snd (mineRun es s))) + blocksDestroyed (stats (fst s)) div 25 =
        resyncs (trace (snd s)) + (blocksDestroyed (stats (fst s)) + length es) div 25"
    using mineRun_successes by blast
  have part6: "iterationSucceeds e s \<and> ?n' mod 25 = 0 \<and> license_outcome e = Inr status \<longrightarrow>
      ?b' = ls_currentBattery status \<and>
      maxBattery (fst (mineOnce e s)) = ls_maxBattery status \<and>
      lastBatteryRefresh (fst (mineOnce e s)) = now_batteryRefresh e"
  proof (intro impI)
    assume a: "iterationSucceeds e s \<and> ?n' mod 25 = 0 \<and> license_outcome e = Inr status"
    then obtain cap where acq: "fst (getCapability e 1 (snd s)) = Inr cap"
      and ok: "success (fst (destroyBlock e (snd s)))"
      by (auto simp: iterationSucceeds_iff)
    from a have due: "(blocksDestroyed (stats (fst s)) + 1) mod 25 = 0"
      by (simp add: mineOnce_when_succeeded(2) [OF acq ok])
    from a have lic: "license_outcome e = Inr status" by simp
    from mineOnce_resync_sets [OF acq ok due lic]
    show "?b' = ls_currentBattery status \<and>
      maxBattery (fst (mineOnce e s)) = ls_maxBattery status \<and>
      lastBatteryRefresh (fst (mineOnce e s)) = now_batteryRefresh e"
      by blast
  qed
  show ?thesis
    by (intro conjI) (rule part1 part2 part3 part4 part5 part6)+
qed

text \<open>
  Scenario D: from a fresh context, 24 consecutive successes make no resync, 25 make
  exactly one, and so do 49. At the 25th block with an estimate of 0: a status read of
  40 raises the estimate to 40 through the resync; a status read that throws leaves it
  at 0 and counts no error; a depleted-battery failure makes no resync. At the 25th block
  with an estimate of 50, the status read of 40 out of 100 lowers the estimate to 40.
\<close>

theorem battery_estimate_and_resync_witness:
  "resyncs (trace (snd (mineRun (replicate 24 env_ok) (ctx0, world0)))) = 0 \<and>
   resyncs (trace (snd (mineRun (replicate 25 env_ok) (ctx0, world0)))) = 1 \<and>
   resyncs (trace (snd (mineRun (replicate 49 env_ok) (ctx0, world0)))) = 1 \<and>
   blocksDestroyed (stats (fst (mineRun (replicate 49 env_ok) (ctx0, world0)))) = 49 \<and>
   currentBattery (fst (mineOnce env_ok (ctx24, world0))) = 40 \<and>
   resyncs (trace (snd (mineOnce env_ok (ctx24, world0)))) = 1 \<and>
   currentBattery (fst (mineOnce env_no_status (ctx24, world0))) = 0 \<and>
   resyncs (trace (snd (mineOnce env_no_status (ctx24, world0)))) = 1 \<and>
   errors (stats (fst (mineOnce env_no_status (ctx24, world0)))) = 0 \<and>
   currentBattery (fst (mineOnce env_depleted (ctx24, world0))) = 0 \<and>
   resyncs (trace (snd (mineOnce env_depleted (ctx24, world0)))) = 0 \<and>
   currentBattery (fst (mineOnce env_ok (ctx24\<lparr>currentBattery := 50\<rparr>, world0))) = 40 \<and>
   maxBattery (fst (mineOnce env_ok (ctx24\<lparr>currentBattery := 50\<rparr>, world0))) = 100 \<and>
   lastBatteryRefresh (fst (mineOnce env_ok (ctx24\<lparr>currentBattery := 50\<rparr>, world0))) = 1000900"
proof -
  let ?s0 = "(ctx0, world0)"
  let ?s24 = "(ctx24, world0)"
  have ok: "callsSucceed env_ok" "callsSucceed env_no_status"
    by (simp_all add: callsSucceed_def env_ok_def env_no_status_def)
  have z0: "blocksDestroyed (stats (fst ?s0)) = 0" "resyncs (trace (snd ?s0)) = 0"
    by (simp_all add: ctx0_def createMinerContext_def createInitialStats_def world0_def
        resyncs_def)
  have z24: "blocksDestroyed (stats (fst ?s24)) = 24" "resyncs (trace (snd ?s24)) = 0"
    "currentBattery (fst ?s24) = 0" "errors (stats (fst ?s24)) = 0"
    by (simp_all add: ctx24_def ctx0_def createMinerContext_def createInitialStats_def
        world0_def resyncs_def)
  have all: "allSucceed (replicate n env_ok) ?s0" for n
    by (rule callsSucceed_run) (simp add: list_all_length ok)
  have run: "resyncs (trace (snd (mineRun (replicate n env_ok) ?s0))) = n div 25 \<and>
      blocksDestroyed (stats (fst (mineRun (replicate n env_ok) ?s0))) = n" for n
    using battery_estimate_and_resync [of ?s0 env_ok "replicate n env_ok"] all [of n] z0
    by simp
  have r24: "resyncs (trace (snd (mineRun (replicate 24 env_ok) ?s0))) = 0"
    using run [of 24] by simp
  have r25: "resyncs (trace (snd (mineRun (replicate 25 env_ok) ?s0))) = 1"
    using run [of 25] by simp
  have r49: "resyncs (trace (snd (mineRun (replicate 49 env_ok) ?s0))) = 1 \<and>
      blocksDestroyed (stats (fst (mineRun (replicate 49 env_ok) ?s0))) = 49"
    using run [of 49] by simp
  \<comment> \<open>the 25th block, the status read succeeding\<close>
  have s1: "iterationSucceeds env_ok ?s24" using ok(1) by (rule callsSucceed_iteration)
  note A = battery_estimate_and_resync [of ?s24 env_ok "[]"]
  from A s1 z24 have a1: "blocksDestroyed (stats (fst (mineOnce env_ok ?s24))) = 25"
    by simp
  from A s1 z24 a1 have a2: "resyncs (trace (snd (mineOnce env_ok ?s24))) = 1"
    by simp
  have lic: "license_outcome env_ok = Inr \<lparr>ls_currentBattery = 40, ls_maxBattery = 100\<rparr>"
    by (simp add: env_ok_def)
  have nonneg: "0 \<le> currentBattery (fst ?s24) \<and>
      (\<forall>st. license_outcome env_ok = Inr st \<longrightarrow> 0 \<le> ls_currentBattery st)"
    using z24(3) lic by auto
  from A nonneg have a3: "0 \<le> currentBattery (fst (mineOnce env_ok ?s24))" by blast
  from s1 obtain cap where acq: "fst (getCapability env_ok 1 (snd ?s24)) = Inr cap"
    and su: "success (fst (destroyBlock env_ok (snd ?s24)))"
    by (auto simp: iterationSucceeds_iff)
  have a4: "currentBattery (fst (mineOnce env_ok ?s24)) = 40"
    using mineOnce_when_succeeded(5) [OF acq su] z24(1) lic by simp
  then have raised: "currentBattery (fst ?s24) < currentBattery (fst (mineOnce env_ok ?s24))"
    using z24(3) by simp
  from A raised have a5: "\<exists>st. license_outcome env_ok = Inr st \<and>
      currentBattery (fst (mineOnce env_ok ?s24)) = ls_currentBattery st"
    by blast
  \<comment> \<open>the 25th block, the status read throwing\<close>
  have s2: "iterationSucceeds env_no_status ?s24" using ok(2) by (rule callsSucceed_iteration)
  have thr: "\<exists>m. license_outcome env_no_status = Inl m" by (simp add: env_no_status_def)
  note B = battery_estimate_and_resync [of ?s24 env_no_status "[]"]
  from B s2 z24 have b1: "blocksDestroyed (stats (fst (mineOnce env_no_status ?s24))) = 25"
    by simp
  from B s2 z24 b1 have b2: "resyncs (trace (snd (mineOnce env_no_status ?s24))) = 1"
    by simp
  from B s2 z24 have b3: "errors (stats (fst (mineOnce env_no_status ?s24))) = 0"
    by simp
  from B s2 thr have "currentBattery (fst (mineOnce env_no_status ?s24)) =
      (if currentBattery (fst ?s24) > 0 then currentBattery (fst ?s24) - 1
       else currentBattery (fst ?s24))"
    by blast
  with z24(3) have b4: "currentBattery (fst (mineOnce env_no_status ?s24)) = 0" by simp
  \<comment> \<open>a failure: no resync\<close>
  have so: "simulate_outcome env_depleted =
      Some ''execution reverted: Battery depleted - shift ended''"
    by (simp add: env_depleted_def)
  have "\<not> success (fst (destroyBlock env_depleted (snd ?s24)))"
    by (simp add: destroyBlock_sim_throws [OF so] destroyBlock_simCatch_fails)
  then have s3: "\<not> iterationSucceeds env_depleted ?s24" by (simp add: iterationSucceeds_iff)
  note C = battery_estimate_and_resync [of ?s24 env_depleted "[]"]
  from C s3 z24 have c1: "currentBattery (fst (mineOnce env_depleted ?s24)) = 0 \<and>
      resyncs (trace (snd (mineOnce env_depleted ?s24))) = 0"
    by simp
  \<comment> \<open>the 25th block, the status read lowering the estimate\<close>
  let ?s50 = "(ctx24\<lparr>currentBattery := 50\<rparr>, world0)"
  have s4: "iterationSucceeds env_ok ?s50" using ok(1) by (rule callsSucceed_iteration)
  have z50: "blocksDestroyed (stats (fst ?s50)) = 24"
    by (simp add: ctx24_def ctx0_def createMinerContext_def createInitialStats_def)
  note D = battery_estimate_and_resync
    [of ?s50 env_ok "[]" "\<lparr>ls_currentBattery = 40, ls_maxBattery = 100\<rparr>"]
  from D s4 z50 have d1: "blocksDestroyed (stats (fst (mineOnce env_ok ?s50))) = 25"
    by simp
  then have d2: "blocksDestroyed (stats (fst (mineOnce env_ok ?s50))) mod 25 = 0" by simp
  from D s4 d2 lic have d3: "currentBattery (fst (mineOnce env_ok ?s50)) =
        ls_currentBattery \<lparr>ls_currentBattery = 40, ls_maxBattery = 100\<rparr> \<and>
      maxBattery (fst (mineOnce env_ok ?s50)) =
        ls_maxBattery \<lparr>ls_currentBattery = 40, ls_maxBattery = 100\<rparr> \<and>
      lastBatteryRefresh (fst (mineOnce env_ok ?s50)) = now_batteryRefresh env_ok"
    by blast
  have nb: "now_batteryRefresh env_ok = 1000900" by (simp add: env_ok_def)
  from d3 nb have d4: "currentBattery (fst (mineOnce env_ok ?s50)) = 40 \<and>
      maxBattery (fst (mineOnce env_ok ?s50)) = 100 \<and>
      lastBatteryRefresh (fst (mineOnce env_ok ?s50)) = 1000900"
    by simp
  from r24 r25 r49 a4 a2 b4 b2 b3 c1 d4 show ?thesis by blast
qed

section \<open>Callbacks that may throw: proofs\<close>

lemma invoke_returns: "invoke None ev s = Inr (fst s, emit ev (snd s))"
  by (simp add: invoke_def)

lemma invoke_throws: "invoke (Some m) ev s = Inl (m, (fst s, emit ev (snd s)))"
  by (simp add: invoke_def)

lemma mineOnce_finish_eq: "mineOnce e s = mineOnce_finish e (mineOnce_try e (mineOnce_pick e s))"
  by (simp add: mineOnce_def mineOnce_finish_def Let_def)

lemma loopBody_saveState: "loopBody e s = saveState (mineOnce e s)"
  by (simp add: loopBody_def saveState_def Let_def)


lemma finish_count:
  assumes "x \<noteq> GetBalance" and "x \<noteq> GetUnprocessedCubeBalance" and "x \<noteq> GetCubeBalance"
    and "\<And>st. x \<noteq> OnStats st"
  shows "count_list (trace (snd (mineOnce_finish e s1))) x = count_list (trace (snd s1)) x"
  using assms
  by (auto simp: mineOnce_finish_def Let_def count_emit balances_count advance_frame)


text \<open>With hooks that all return, the iteration is the one of the earlier sections.\<close>

lemma quiet_hooks [simp]:
  "onBlockDestroyed_throws quiet c b t = None"
  "onBlockAlreadyDestroyed_throws quiet c b = None"
  "onError_throws quiet m = None"
  "onCapabilityRefresh_throws quiet n = None"
  "onStats_throws quiet st = None"
  "onBatteryDepleted_throws quiet = None"
  "saveRuntimeState_throws quiet st = None"
  by (simp_all add: quiet_def)

lemma noteRefresh_quiet:
  "onCapabilityRefresh_throws h (budget (capability cap)) = None \<or> \<not> b \<Longrightarrow>
     noteRefresh_hooks h b cap s = Inr (noteRefresh b cap s)"
  by (auto simp: noteRefresh_hooks_def noteRefresh_def invoke_returns)

lemma result_quiet:
  "mineOnce_result_hooks quiet e r s = Inr (mineOnce_result e r s)"
  by (simp add: mineOnce_result_hooks_def mineOnce_result_def
      mineOnce_success_hooks_def mineOnce_success_def
      mineOnce_already_hooks_def mineOnce_already_def
      mineOnce_failure_hooks_def mineOnce_failure_def
      invoke_returns Let_def split: sum.splits)

lemma catch_hooks_returns:
  "onError_throws h msg = None \<Longrightarrow> mineOnce_catch_hooks h msg st = Inr (mineOnce_catch msg st)"
  by (simp add: mineOnce_catch_hooks_def mineOnce_catch_def invoke_returns Let_def)


lemma guarded_quiet:
  "mineOnce_guarded_hooks quiet e s = Inr (mineOnce_try e s)"
  by (simp add: mineOnce_guarded_hooks_def mineOnce_try_hooks_def mineOnce_try_def Let_def
      noteRefresh_quiet result_quiet catch_hooks_returns split: sum.splits)

lemma finish_hooks_returns:
  "onStats_throws h (stats (fst s1)) = None \<Longrightarrow>
     mineOnce_finish_hooks h e s1 = Inr (mineOnce_finish e s1)"
  by (simp add: mineOnce_finish_hooks_def mineOnce_finish_def Let_def invoke_returns
      balances_frame advance_frame)

lemma finish_hooks_throws:
  "onStats_throws h (stats (fst s1)) = Some m \<Longrightarrow> thrown (mineOnce_finish_hooks h e s1) = Some m"
  by (simp add: mineOnce_finish_hooks_def Let_def invoke_throws thrown_def
      balances_frame advance_frame)

lemma mineOnce_quiet: "mineOnce_hooks quiet e s = Inr (mineOnce e s)"
  by (simp add: mineOnce_hooks_def guarded_quiet finish_hooks_returns mineOnce_finish_eq)

lemma loopBody_quiet: "loopBody_hooks quiet e s = Inr (loopBody e s)"
  by (simp add: loopBody_hooks_def mineOnce_quiet invoke_returns loopBody_def Let_def)

lemma miningLoop_quiet:
  "miningLoop_hooks quiet es s =
     (case miningLoop es s of None \<Rightarrow> None | Some r \<Rightarrow> Some (Inr r))"
  by (induction es arbitrary: s) (auto simp: loopBody_quiet split: option.splits)








end
